theory Spec2Isabelle
  imports Complex_Main
begin

section \<open>JavaScript numbers\<close>

text \<open>
  The indicator code of \<^verbatim>\<open>src/strategyLogic.ts\<close> computes on JavaScript numbers.
  A number is modelled as a finite value, one of the two infinities, or NaN. Arithmetic on
  finite values is exact (rounding and overflow of doubles are outside the model); the
  special values follow IEEE 754: a division by zero gives an infinity or NaN instead of
  raising, NaN is absorbing, and every comparison with NaN is false. Signed zero is not
  modelled: a zero divisor counts as \<open>+0\<close>, which is the only zero divisor this code can
  produce (sums of absolute values, and non-negative counts).
\<close>

datatype jsnum = Fin real | PInf | NInf | NaN

definition js_add :: "jsnum \<Rightarrow> jsnum \<Rightarrow> jsnum" where
  "js_add a b =
     (case (a, b) of
        (Fin x, Fin y) \<Rightarrow> Fin (x + y)
      | (NaN, _) \<Rightarrow> NaN
      | (_, NaN) \<Rightarrow> NaN
      | (PInf, NInf) \<Rightarrow> NaN
      | (NInf, PInf) \<Rightarrow> NaN
      | (PInf, _) \<Rightarrow> PInf
      | (_, PInf) \<Rightarrow> PInf
      | (NInf, _) \<Rightarrow> NInf
      | (_, NInf) \<Rightarrow> NInf)"

definition js_neg :: "jsnum \<Rightarrow> jsnum" where
  "js_neg a = (case a of Fin x \<Rightarrow> Fin (- x) | PInf \<Rightarrow> NInf | NInf \<Rightarrow> PInf | NaN \<Rightarrow> NaN)"

definition js_sub :: "jsnum \<Rightarrow> jsnum \<Rightarrow> jsnum" where
  "js_sub a b = js_add a (js_neg b)"

definition js_mul :: "jsnum \<Rightarrow> jsnum \<Rightarrow> jsnum" where
  "js_mul a b =
     (case (a, b) of
        (Fin x, Fin y) \<Rightarrow> Fin (x * y)
      | (NaN, _) \<Rightarrow> NaN
      | (_, NaN) \<Rightarrow> NaN
      | (Fin x, PInf) \<Rightarrow> (if x = 0 then NaN else if 0 < x then PInf else NInf)
      | (Fin x, NInf) \<Rightarrow> (if x = 0 then NaN else if 0 < x then NInf else PInf)
      | (PInf, Fin y) \<Rightarrow> (if y = 0 then NaN else if 0 < y then PInf else NInf)
      | (NInf, Fin y) \<Rightarrow> (if y = 0 then NaN else if 0 < y then NInf else PInf)
      | (PInf, PInf) \<Rightarrow> PInf
      | (NInf, NInf) \<Rightarrow> PInf
      | (PInf, NInf) \<Rightarrow> NInf
      | (NInf, PInf) \<Rightarrow> NInf)"

definition js_div :: "jsnum \<Rightarrow> jsnum \<Rightarrow> jsnum" where
  "js_div a b =
     (case (a, b) of
        (Fin x, Fin y) \<Rightarrow>
          (if y \<noteq> 0 then Fin (x / y)
           else if 0 < x then PInf else if x < 0 then NInf else NaN)
      | (NaN, _) \<Rightarrow> NaN
      | (_, NaN) \<Rightarrow> NaN
      | (Fin x, _) \<Rightarrow> Fin 0
      | (PInf, Fin y) \<Rightarrow> (if 0 \<le> y then PInf else NInf)
      | (NInf, Fin y) \<Rightarrow> (if 0 \<le> y then NInf else PInf)
      | (_, _) \<Rightarrow> NaN)"

definition js_inv :: "jsnum \<Rightarrow> jsnum" where
  "js_inv a = js_div (Fin 1) a"

definition js_abs :: "jsnum \<Rightarrow> jsnum" where
  "js_abs a = (case a of Fin x \<Rightarrow> Fin \<bar>x\<bar> | PInf \<Rightarrow> PInf | NInf \<Rightarrow> PInf | NaN \<Rightarrow> NaN)"

definition js_lt :: "jsnum \<Rightarrow> jsnum \<Rightarrow> bool" where
  "js_lt a b =
     (case (a, b) of
        (Fin x, Fin y) \<Rightarrow> x < y
      | (NaN, _) \<Rightarrow> False
      | (_, NaN) \<Rightarrow> False
      | (NInf, NInf) \<Rightarrow> False
      | (NInf, _) \<Rightarrow> True
      | (PInf, _) \<Rightarrow> False
      | (Fin x, PInf) \<Rightarrow> True
      | (Fin x, NInf) \<Rightarrow> False)"

definition js_le :: "jsnum \<Rightarrow> jsnum \<Rightarrow> bool" where
  "js_le a b = (js_lt a b \<or> (a = b \<and> a \<noteq> NaN))"

text \<open>The operations under their usual symbols.\<close>

instantiation jsnum :: "{plus,uminus,minus,times,inverse,abs,ord}"
begin

definition plus_jsnum :: "jsnum \<Rightarrow> jsnum \<Rightarrow> jsnum" where
  "plus_jsnum a b = js_add a b"

definition uminus_jsnum :: "jsnum \<Rightarrow> jsnum" where
  "uminus_jsnum a = js_neg a"

definition minus_jsnum :: "jsnum \<Rightarrow> jsnum \<Rightarrow> jsnum" where
  "minus_jsnum a b = js_sub a b"

definition times_jsnum :: "jsnum \<Rightarrow> jsnum \<Rightarrow> jsnum" where
  "times_jsnum a b = js_mul a b"

definition divide_jsnum :: "jsnum \<Rightarrow> jsnum \<Rightarrow> jsnum" where
  "divide_jsnum a b = js_div a b"

definition inverse_jsnum :: "jsnum \<Rightarrow> jsnum" where
  "inverse_jsnum a = js_inv a"

definition abs_jsnum :: "jsnum \<Rightarrow> jsnum" where
  "abs_jsnum a = js_abs a"

definition less_jsnum :: "jsnum \<Rightarrow> jsnum \<Rightarrow> bool" where
  "less_jsnum a b = js_lt a b"

definition less_eq_jsnum :: "jsnum \<Rightarrow> jsnum \<Rightarrow> bool" where
  "less_eq_jsnum a b = js_le a b"

instance ..

end

text \<open>
  Reading a number array out of range gives \<^verbatim>\<open>undefined\<close>, which every arithmetic
  operation and comparison of this code treats as NaN.
\<close>

definition num_at :: "jsnum list \<Rightarrow> nat \<Rightarrow> jsnum" where
  "num_at xs i = (if i < length xs then xs ! i else NaN)"

text \<open>
  \<^verbatim>\<open>Array.prototype.slice(start, end)\<close>: a negative index counts from the end, both
  indices are clamped to the array, and an omitted \<^verbatim>\<open>end\<close> is the length.
\<close>

definition slice :: "'a list \<Rightarrow> int \<Rightarrow> int option \<Rightarrow> 'a list" where
  "slice xs start e =
     (let len = int (length xs);
          k = (if start < 0 then max (len + start) 0 else min start len);
          final = (case e of None \<Rightarrow> len
                   | Some e' \<Rightarrow> if e' < 0 then max (len + e') 0 else min e' len)
      in take (nat (final - k)) (drop (nat k) xs))"

section \<open>Data model\<close>

record PriceData =
  "open" :: jsnum
  high :: jsnum
  low :: jsnum
  close :: jsnum
  timestamp :: int

datatype signal_type = BUY | SELL | NEUTRAL

record TradingSignal =
  type :: signal_type
  signal_timestamp :: int
  price :: jsnum

record SSLChannelData =
  sslUp :: jsnum
  sslDown :: jsnum
  hlv :: int
  signal :: signal_type
  color :: string
  buySignal :: bool
  sellSignal :: bool

datatype trend_direction = GREEN | RED | TREND_NEUTRAL

datatype rsi_bias = BULLISH | BEARISH | BIAS_NEUTRAL

record TrendFusionData =
  trendDirection :: trend_direction
  shortEMA :: jsnum
  longEMA :: jsnum
  momentum :: jsnum
  rsiValue :: jsnum
  rsiBias :: rsi_bias
  trend_color :: string
  rsiBiasLine :: jsnum
  rsiBiasColor :: string

datatype ma_type = SMA | EMA

text \<open>
  Periods are counts of bars, hence natural numbers. The optional settings objects have
  optional fields; a missing object reads as an object with every field missing.
\<close>

record SSLSettings =
  maPeriod :: "nat option"
  maType :: "ma_type option"

record TrendSettings =
  shortEMAPeriod :: "nat option"
  longEMAPeriod :: "nat option"
  rsiPeriod :: "nat option"
  topLevel :: "jsnum option"
  bottomLevel :: "jsnum option"

text \<open>\<^verbatim>\<open>settings?.field\<close>\<close>

definition opt_field :: "'s option \<Rightarrow> ('s \<Rightarrow> 'a option) \<Rightarrow> 'a option" where
  "opt_field settings field = (case settings of None \<Rightarrow> None | Some s \<Rightarrow> field s)"

text \<open>
  \<^verbatim>\<open>x || d\<close>: the default \<open>d\<close> replaces a missing value and every falsy one; the falsy
  numbers are \<open>0\<close> and NaN. The two names of a moving-average kind are non-empty strings and
  so never falsy.
\<close>

definition or_period :: "nat option \<Rightarrow> nat \<Rightarrow> nat" where
  "or_period x d = (case x of None \<Rightarrow> d | Some v \<Rightarrow> if v = 0 then d else v)"

definition or_level :: "jsnum option \<Rightarrow> jsnum \<Rightarrow> jsnum" where
  "or_level x d = (case x of None \<Rightarrow> d | Some v \<Rightarrow> if v = Fin 0 \<or> v = NaN then d else v)"

definition or_type :: "ma_type option \<Rightarrow> ma_type \<Rightarrow> ma_type" where
  "or_type x d = (case x of None \<Rightarrow> d | Some v \<Rightarrow> v)"

section \<open>Moving average\<close>

text \<open>
  \<^verbatim>\<open>calculateMA\<close>. The \<^verbatim>\<open>default:\<close> branch of its switch repeats the SMA branch and
  is unreachable for the two kinds the type allows. The SMA sums the last \<open>len\<close> values
  from 0 with \<^verbatim>\<open>reduce\<close>; the EMA starts from \<^verbatim>\<open>source[0]\<close> and runs over the
  indices \<open>1..<length source\<close> of the whole sequence.
\<close>

definition calculateMA :: "jsnum list \<Rightarrow> nat \<Rightarrow> ma_type \<Rightarrow> jsnum" where
  "calculateMA source len type' =
     (if length source < len then Fin 0
      else case type' of
        SMA \<Rightarrow>
          fold (\<lambda>val sum. sum + val) (slice source (- int len) None) (Fin 0) / Fin (real len)
      | EMA \<Rightarrow>
          (let multiplier = Fin 2 / Fin (real len + 1);
               ema = num_at source 0
           in fold (\<lambda>i ema. num_at source i * multiplier + ema * (Fin 1 - multiplier))
                [1..<length source] ema))"

text \<open>
  The arithmetic of \<open>calculateMA\<close> above is exact. The source computes in IEEE doubles,
  where every operation delivers the rounded value of the exact result. \<open>calculateMA_fl\<close> is
  the same function with a rounding \<open>rnd\<close> applied to the result of each floating-point
  operation of the source: the division that gives the multiplier, the subtraction
  \<^verbatim>\<open>1 - multiplier\<close>, the two products and the sum of the EMA step, and each addition and
  the division of the SMA. (\<^verbatim>\<open>length + 1\<close> is an integer and exact.) The rounding takes
  the exact result to a number, so that it can overflow to an infinity. With \<open>Fin\<close>, which
  does not round, \<open>calculateMA_fl\<close> is \<open>calculateMA\<close>.
\<close>

definition fl :: "(real \<Rightarrow> jsnum) \<Rightarrow> jsnum \<Rightarrow> jsnum" where
  "fl rnd x = (case x of Fin r \<Rightarrow> rnd r | PInf \<Rightarrow> PInf | NInf \<Rightarrow> NInf | NaN \<Rightarrow> NaN)"

definition calculateMA_fl :: "(real \<Rightarrow> jsnum) \<Rightarrow> jsnum list \<Rightarrow> nat \<Rightarrow> ma_type \<Rightarrow> jsnum" where
  "calculateMA_fl rnd source len type' =
     (if length source < len then Fin 0
      else case type' of
        SMA \<Rightarrow>
          fl rnd (fold (\<lambda>val sum. fl rnd (sum + val)) (slice source (- int len) None) (Fin 0)
                  / Fin (real len))
      | EMA \<Rightarrow>
          (let multiplier = fl rnd (Fin 2 / Fin (real len + 1));
               ema = num_at source 0
           in fold (\<lambda>i ema. fl rnd (fl rnd (num_at source i * multiplier)
                                      + fl rnd (ema * fl rnd (Fin 1 - multiplier))))
                [1..<length source] ema))"






section \<open>SSL channel\<close>

text \<open>
  The block of \<^verbatim>\<open>calculateSSLChannel\<close> that determines \<^verbatim>\<open>hlv\<close> from the recent bars
  and the two moving averages ("Determine Hlv (High Low Value) with state persistence").
\<close>

definition determine_hlv :: "PriceData list \<Rightarrow> bool \<Rightarrow> jsnum \<Rightarrow> jsnum \<Rightarrow> int" where
  "determine_hlv recentData wicks ma1 ma2 =
     (let currentPrice = close (recentData ! (length recentData - 1));
          priceToCompare = (if wicks then high (recentData ! (length recentData - 1))
                            else currentPrice);
          lowPriceToCompare = (if wicks then low (recentData ! (length recentData - 1))
                               else currentPrice)
      in if priceToCompare > ma1 then 1
         else if lowPriceToCompare < ma2 then - 1
         else if length recentData > 1 then
           (let prevPrice = (if wicks then high (recentData ! (length recentData - 2))
                             else close (recentData ! (length recentData - 2)));
                prevLowPrice = (if wicks then low (recentData ! (length recentData - 2))
                                else close (recentData ! (length recentData - 2)))
            in if prevPrice > ma1 then 1
               else if prevLowPrice < ma2 then - 1
               else 0)
         else 0)"

text \<open>
  \<^verbatim>\<open>calculateSSLChannel\<close>. After the guard the window has at least \<open>maPeriod\<close> bars and
  \<open>maPeriod\<close> is at least 1 (a zero period has been replaced by 200), so \<open>recentData\<close> is not
  empty and the bars read from it exist. The two event flags are the pair the function
  updates in its last block; the recursive call is on the \<open>maPeriod\<close> bars before the last.
\<close>

function calculateSSLChannel :: "PriceData list \<Rightarrow> bool \<Rightarrow> SSLSettings option \<Rightarrow> SSLChannelData" where
  "calculateSSLChannel priceData wicks settings =
     (let maPeriod = or_period (opt_field settings SSLSettings.maPeriod) 200;
          maType = or_type (opt_field settings SSLSettings.maType) SMA
      in if length priceData < maPeriod then
           \<lparr>sslUp = Fin 0, sslDown = Fin 0, hlv = 0, signal = NEUTRAL, color = ''#6B7280'',
            buySignal = False, sellSignal = False\<rparr>
         else
           (let recentData = slice priceData (- int maPeriod) None;
                highValues = map high recentData;
                lowValues = map low recentData;
                ma1 = calculateMA highValues maPeriod maType;
                ma2 = calculateMA lowValues maPeriod maType;
                hlv = determine_hlv recentData wicks ma1 ma2;
                sslUp = (if hlv < 0 then ma2 else ma1);
                sslDown = (if hlv < 0 then ma1 else ma2);
                signal = (if hlv = 1 then BUY else if hlv = - 1 then SELL else NEUTRAL);
                signalColor = (if hlv = 1 then ''#EAB308''
                               else if hlv = - 1 then ''#EAB308'' else ''#6B7280'');
                (buySignal, sellSignal) =
                  (if length recentData > 1 then
                     (let prevData = slice priceData (- (int maPeriod + 1)) (Some (- 1));
                          prevSSL = calculateSSLChannel prevData wicks settings
                      in if hlv = 1 \<and> SSLChannelData.hlv prevSSL = - 1 then (True, False)
                         else if hlv = - 1 \<and> SSLChannelData.hlv prevSSL = 1 then (False, True)
                         else (False, False))
                   else (False, False))
            in \<lparr>sslUp = sslUp, sslDown = sslDown, hlv = hlv, signal = signal,
                color = signalColor, buySignal = buySignal, sellSignal = sellSignal\<rparr>))"
  by pat_completeness auto
termination
proof (relation "measure (\<lambda>(priceData, wicks, settings). length priceData)")
  show "wf (measure (\<lambda>(priceData :: PriceData list, wicks :: bool, settings :: SSLSettings option).
              length priceData))"
    by simp
next
  fix priceData :: "PriceData list" and wicks :: bool and settings :: "SSLSettings option"
    and maPeriod :: nat and recentData prevData :: "PriceData list"
  assume "maPeriod = or_period (opt_field settings SSLSettings.maPeriod) 200"
    and "\<not> length priceData < maPeriod"
    and "recentData = slice priceData (- int maPeriod) None"
    and "1 < length recentData"
    and "prevData = slice priceData (- (int maPeriod + 1)) (Some (- 1))"
  then show "((prevData, wicks, settings), priceData, wicks, settings)
             \<in> measure (\<lambda>(priceData, wicks, settings). length priceData)"
    by (cases priceData) (auto simp: slice_def Let_def max_def)
qed

declare calculateSSLChannel.simps [simp del]

section \<open>Relative strength index\<close>

text \<open>
  The two loops of \<^verbatim>\<open>calculateRSI\<close> run over the indices \<open>1..len\<close> and
  \<open>len+1..<length prices\<close>; the guard keeps every index they read in range. Their bodies
  are \<open>accumulate_change\<close> (the initial sums of gains and losses) and \<open>smooth_change\<close>
  (one step of the smoothing), each taking the pair of variables the loop updates.
\<close>

definition accumulate_change :: "jsnum list \<Rightarrow> nat \<Rightarrow> jsnum \<times> jsnum \<Rightarrow> jsnum \<times> jsnum" where
  "accumulate_change prices i =
     (\<lambda>(gains, losses).
        let change = num_at prices i - num_at prices (i - 1)
        in if change > Fin 0 then (gains + change, losses)
           else (gains, losses + \<bar>change\<bar>))"

definition smooth_change :: "jsnum list \<Rightarrow> nat \<Rightarrow> nat \<Rightarrow> jsnum \<times> jsnum \<Rightarrow> jsnum \<times> jsnum" where
  "smooth_change prices len i =
     (\<lambda>(avgGain, avgLoss).
        let change = num_at prices i - num_at prices (i - 1)
        in if change > Fin 0 then
             ((avgGain * Fin (real len - 1) + change) / Fin (real len),
              (avgLoss * Fin (real len - 1)) / Fin (real len))
           else
             ((avgGain * Fin (real len - 1)) / Fin (real len),
              (avgLoss * Fin (real len - 1) + \<bar>change\<bar>) / Fin (real len)))"

definition calculateRSI :: "jsnum list \<Rightarrow> nat \<Rightarrow> jsnum" where
  "calculateRSI prices len =
     (if length prices < len + 1 then Fin 50
      else
        (let (gains, losses) = fold (accumulate_change prices) [1..<len + 1] (Fin 0, Fin 0);
             avgGain = gains / Fin (real len);
             avgLoss = losses / Fin (real len);
             (avgGain, avgLoss) =
               fold (smooth_change prices len) [len + 1..<length prices] (avgGain, avgLoss);
             rs = avgGain / avgLoss
         in Fin 100 - Fin 100 / (Fin 1 + rs)))"

section \<open>Trend fusion\<close>

definition calculateTrendFusion :: "PriceData list \<Rightarrow> TrendSettings option \<Rightarrow> TrendFusionData" where
  "calculateTrendFusion priceData settings =
     (let shortPeriod = or_period (opt_field settings TrendSettings.shortEMAPeriod) 14;
          longPeriod = or_period (opt_field settings TrendSettings.longEMAPeriod) 50;
          rsiLength = or_period (opt_field settings TrendSettings.rsiPeriod) 14;
          topLevel = or_level (opt_field settings TrendSettings.topLevel) (Fin 60);
          bottomLevel = or_level (opt_field settings TrendSettings.bottomLevel) (Fin 40)
      in if length priceData < max (max shortPeriod longPeriod) rsiLength then
           \<lparr>trendDirection = TREND_NEUTRAL, shortEMA = Fin 0, longEMA = Fin 0,
            momentum = Fin 0, rsiValue = Fin 50, rsiBias = BIAS_NEUTRAL,
            trend_color = ''#6B7280'', rsiBiasLine = Fin 50, rsiBiasColor = ''#6B7280''\<rparr>
         else
           (let closePrices = map close priceData;
                shortEMA = calculateMA closePrices shortPeriod EMA;
                longEMA = calculateMA closePrices longPeriod EMA;
                momentum = calculateRSI closePrices rsiLength - Fin 50;
                rsiValue = calculateRSI closePrices rsiLength;
                (rsiBias, rsiBiasLine, rsiBiasColor) =
                  (if length priceData > 1 then
                     (let prevRsi = calculateRSI (slice closePrices 0 (Some (- 1))) rsiLength
                      in if prevRsi \<le> topLevel \<and> rsiValue > topLevel then
                           (BULLISH, bottomLevel, ''#EC4899'')
                         else if prevRsi \<ge> bottomLevel \<and> rsiValue < bottomLevel then
                           (BEARISH, topLevel, ''#EC4899'')
                         else (BIAS_NEUTRAL, Fin 50, ''#6B7280''))
                   else (BIAS_NEUTRAL, Fin 50, ''#6B7280''));
                (trendDirection, trendColor) =
                  (if shortEMA > longEMA then
                     (GREEN, if momentum > Fin 0 then ''#10B981'' else ''#10B981'')
                   else if shortEMA < longEMA then
                     (RED, if momentum > Fin 0 then ''#991B1B'' else ''#EF4444'')
                   else (TREND_NEUTRAL, ''#6B7280''))
            in \<lparr>trendDirection = trendDirection, shortEMA = shortEMA, longEMA = longEMA,
                momentum = momentum, rsiValue = rsiValue, rsiBias = rsiBias,
                trend_color = trendColor, rsiBiasLine = rsiBiasLine,
                rsiBiasColor = rsiBiasColor\<rparr>))"

section \<open>Signal combination\<close>

text \<open>
  \<^verbatim>\<open>new Date()\<close> reads the clock; the instant it returns is the parameter \<open>now\<close>.
  Instants are milliseconds since the epoch.
\<close>

definition calculateTradingSignal :: "int \<Rightarrow> PriceData list \<Rightarrow> TradingSignal" where
  "calculateTradingSignal now priceData =
     (if length priceData < 200 then
        \<lparr>type = NEUTRAL, signal_timestamp = now,
         price = (if length priceData > 0 then close (priceData ! (length priceData - 1))
                  else Fin 0)\<rparr>
      else
        (let currentPrice = close (priceData ! (length priceData - 1));
             sslChannel = calculateSSLChannel priceData False None;
             trendFusion = calculateTrendFusion priceData None;
             signalType =
               (if signal sslChannel = BUY \<and> trendDirection trendFusion = GREEN then BUY
                else if signal sslChannel = SELL \<and> trendDirection trendFusion = RED then SELL
                else NEUTRAL)
         in \<lparr>type = signalType,
             signal_timestamp = timestamp (priceData ! (length priceData - 1)),
             price = currentPrice\<rparr>))"

section \<open>Time-range selection\<close>

text \<open>
  \<^verbatim>\<open>src/workers/dataProcessor.worker.ts\<close>. Reading \<^verbatim>\<open>data[mid].timestamp\<close> out
  of range would raise a TypeError, which is a result of the model.
\<close>

datatype error = TypeError

function findStartIndex_loop :: "PriceData list \<Rightarrow> int \<Rightarrow> int \<Rightarrow> int \<Rightarrow> error + int" where
  "findStartIndex_loop data targetDate left right =
     (if left \<le> right then
        (let mid = (left + right) div 2
         in if mid < 0 \<or> int (length data) \<le> mid then Inl TypeError
            else
              (let midDate = timestamp (data ! nat mid)
               in if midDate \<ge> targetDate then findStartIndex_loop data targetDate left (mid - 1)
                  else findStartIndex_loop data targetDate (mid + 1) right))
      else Inr left)"
  by pat_completeness auto
termination
  by (relation "measure (\<lambda>(data, targetDate, left, right). nat (right - left + 1))") auto

declare findStartIndex_loop.simps [simp del]

definition findStartIndex :: "PriceData list \<Rightarrow> int \<Rightarrow> error + int" where
  "findStartIndex data targetDate = findStartIndex_loop data targetDate 0 (int (length data) - 1)"

text \<open>
  Every case of the switch but \<^verbatim>\<open>'All'\<close> computes a cutoff, searches for it and slices
  from the index found: \<open>from_cutoff\<close> is these two statements.
\<close>

definition from_cutoff :: "PriceData list \<Rightarrow> int \<Rightarrow> error + PriceData list" where
  "from_cutoff data cutoff =
     (case findStartIndex data cutoff of
        Inl e \<Rightarrow> Inl e
      | Inr startIndex \<Rightarrow> Inr (slice data startIndex None))"

text \<open>
  \<^verbatim>\<open>Date.UTC(dataEnd.getUTCFullYear(), 0, 1)\<close> is the runtime's calendar: the parameter
  \<open>startOfYearUTC\<close> maps an instant to the first instant of its UTC year.
\<close>

definition processTimeRangeData :: "(int \<Rightarrow> int) \<Rightarrow> PriceData list \<Rightarrow> string \<Rightarrow> error + PriceData list" where
  "processTimeRangeData startOfYearUTC data timeRange =
     (if length data = 0 then Inr []
      else
        (let dataEnd = timestamp (data ! (length data - 1))
         in if timeRange = ''1H'' then from_cutoff data (dataEnd - 60 * 60 * 1000)
            else if timeRange = ''1D'' then from_cutoff data (dataEnd - 24 * 60 * 60 * 1000)
            else if timeRange = ''5D'' then from_cutoff data (dataEnd - 5 * 24 * 60 * 60 * 1000)
            else if timeRange = ''1M'' then from_cutoff data (dataEnd - 30 * 24 * 60 * 60 * 1000)
            else if timeRange = ''3M'' then from_cutoff data (dataEnd - 90 * 24 * 60 * 60 * 1000)
            else if timeRange = ''6M'' then from_cutoff data (dataEnd - 180 * 24 * 60 * 60 * 1000)
            else if timeRange = ''YTD'' then from_cutoff data (startOfYearUTC dataEnd)
            else if timeRange = ''1Y'' then from_cutoff data (dataEnd - 365 * 24 * 60 * 60 * 1000)
            else if timeRange = ''5Y'' then
              from_cutoff data (dataEnd - 5 * 365 * 24 * 60 * 60 * 1000)
            else if timeRange = ''All'' then Inr data
            else from_cutoff data (dataEnd - 24 * 60 * 60 * 1000)))"

text \<open>
  \<^verbatim>\<open>src/App.tsx\<close> has its own copy of the selector in \<^verbatim>\<open>loadTimeRangeData\<close>, over
  the loaded series \<^verbatim>\<open>cachedData\<close>: the same binary search and the same switch, with one
  more case, \<^verbatim>\<open>'10Y'\<close>. The model is the part of the function from the empty-series
  guard to the end of the switch; loading the series and the per-token cache of results
  around it are left out.
\<close>

definition loadTimeRangeData_switch :: "(int \<Rightarrow> int) \<Rightarrow> PriceData list \<Rightarrow> string \<Rightarrow> error + PriceData list" where
  "loadTimeRangeData_switch startOfYearUTC cachedData timeRange =
     (if length cachedData = 0 then Inr []
      else
        (let dataEnd = timestamp (cachedData ! (length cachedData - 1))
         in if timeRange = ''1H'' then from_cutoff cachedData (dataEnd - 60 * 60 * 1000)
            else if timeRange = ''1D'' then from_cutoff cachedData (dataEnd - 24 * 60 * 60 * 1000)
            else if timeRange = ''5D'' then
              from_cutoff cachedData (dataEnd - 5 * 24 * 60 * 60 * 1000)
            else if timeRange = ''1M'' then
              from_cutoff cachedData (dataEnd - 30 * 24 * 60 * 60 * 1000)
            else if timeRange = ''3M'' then
              from_cutoff cachedData (dataEnd - 90 * 24 * 60 * 60 * 1000)
            else if timeRange = ''6M'' then
              from_cutoff cachedData (dataEnd - 180 * 24 * 60 * 60 * 1000)
            else if timeRange = ''YTD'' then from_cutoff cachedData (startOfYearUTC dataEnd)
            else if timeRange = ''1Y'' then
              from_cutoff cachedData (dataEnd - 365 * 24 * 60 * 60 * 1000)
            else if timeRange = ''5Y'' then
              from_cutoff cachedData (dataEnd - 5 * 365 * 24 * 60 * 60 * 1000)
            else if timeRange = ''10Y'' then
              from_cutoff cachedData (dataEnd - 10 * 365 * 24 * 60 * 60 * 1000)
            else if timeRange = ''All'' then Inr cachedData
            else from_cutoff cachedData (dataEnd - 24 * 60 * 60 * 1000)))"

section \<open>Effective configuration\<close>

text \<open>The periods, kind and levels an indicator uses once the defaults are filled in.\<close>

definition ssl_period :: "SSLSettings option \<Rightarrow> nat" where
  "ssl_period settings = or_period (opt_field settings SSLSettings.maPeriod) 200"

definition ssl_kind :: "SSLSettings option \<Rightarrow> ma_type" where
  "ssl_kind settings = or_type (opt_field settings SSLSettings.maType) SMA"

definition trend_short :: "TrendSettings option \<Rightarrow> nat" where
  "trend_short settings = or_period (opt_field settings TrendSettings.shortEMAPeriod) 14"

definition trend_long :: "TrendSettings option \<Rightarrow> nat" where
  "trend_long settings = or_period (opt_field settings TrendSettings.longEMAPeriod) 50"

definition trend_rsi_length :: "TrendSettings option \<Rightarrow> nat" where
  "trend_rsi_length settings = or_period (opt_field settings TrendSettings.rsiPeriod) 14"

definition trend_top :: "TrendSettings option \<Rightarrow> jsnum" where
  "trend_top settings = or_level (opt_field settings TrendSettings.topLevel) (Fin 60)"

definition trend_bottom :: "TrendSettings option \<Rightarrow> jsnum" where
  "trend_bottom settings = or_level (opt_field settings TrendSettings.bottomLevel) (Fin 40)"

definition trend_min_length :: "TrendSettings option \<Rightarrow> nat" where
  "trend_min_length settings =
     max (max (trend_short settings) (trend_long settings)) (trend_rsi_length settings)"

section \<open>The SSL state in terms of the window\<close>

text \<open>
  The comparison prices of a bar, the two moving averages of the last \<open>period\<close> bars of a
  window, and the two comparisons that decide a directional state.
\<close>

definition compare_high :: "bool \<Rightarrow> PriceData \<Rightarrow> jsnum" where
  "compare_high useWicks b = (if useWicks then high b else close b)"

definition compare_low :: "bool \<Rightarrow> PriceData \<Rightarrow> jsnum" where
  "compare_low useWicks b = (if useWicks then low b else close b)"

definition ssl_ma1 :: "PriceData list \<Rightarrow> SSLSettings option \<Rightarrow> jsnum" where
  "ssl_ma1 window settings =
     calculateMA (map high (drop (length window - ssl_period settings) window))
       (ssl_period settings) (ssl_kind settings)"

definition ssl_ma2 :: "PriceData list \<Rightarrow> SSLSettings option \<Rightarrow> jsnum" where
  "ssl_ma2 window settings =
     calculateMA (map low (drop (length window - ssl_period settings) window))
       (ssl_period settings) (ssl_kind settings)"

definition two_comparisons :: "jsnum \<Rightarrow> jsnum \<Rightarrow> bool \<Rightarrow> PriceData \<Rightarrow> int option" where
  "two_comparisons ma1 ma2 useWicks b =
     (if compare_high useWicks b > ma1 then Some 1
      else if compare_low useWicks b < ma2 then Some (- 1)
      else None)"

text \<open>
  The directional state as the specification words it: the two comparisons on the last
  bar, else the same two comparisons on the second-to-last bar, else 0.
\<close>

definition ssl_state_spec :: "PriceData list \<Rightarrow> bool \<Rightarrow> SSLSettings option \<Rightarrow> int" where
  "ssl_state_spec window useWicks settings =
     (case two_comparisons (ssl_ma1 window settings) (ssl_ma2 window settings) useWicks
             (window ! (length window - 1)) of
        Some s \<Rightarrow> s
      | None \<Rightarrow>
          (case two_comparisons (ssl_ma1 window settings) (ssl_ma2 window settings) useWicks
                  (window ! (length window - 2)) of
             Some s \<Rightarrow> s
           | None \<Rightarrow> 0))"

text \<open>The invariant of a price bar, which the data source owes and the core never checks.\<close>

definition bar_invariant :: "PriceData \<Rightarrow> bool" where
  "bar_invariant b \<longleftrightarrow>
     low b \<le> PriceData.open b \<and> PriceData.open b \<le> high b \<and>
     low b \<le> close b \<and> close b \<le> high b \<and> low b \<le> high b"

text \<open>A well-formed bar with finite prices, for examples.\<close>

definition bar :: "real \<Rightarrow> real \<Rightarrow> real \<Rightarrow> int \<Rightarrow> PriceData" where
  "bar h l c t = \<lparr>open = Fin c, high = Fin h, low = Fin l, close = Fin c, timestamp = t\<rparr>"

text \<open>
  The directional state as the code derives it: the fallback to the second-to-last bar is
  taken only when the period exceeds 1.
\<close>

definition ssl_state :: "PriceData list \<Rightarrow> bool \<Rightarrow> SSLSettings option \<Rightarrow> int" where
  "ssl_state window useWicks settings =
     (case two_comparisons (ssl_ma1 window settings) (ssl_ma2 window settings) useWicks
             (window ! (length window - 1)) of
        Some s \<Rightarrow> s
      | None \<Rightarrow>
          if 1 < ssl_period settings then
            (case two_comparisons (ssl_ma1 window settings) (ssl_ma2 window settings) useWicks
                    (window ! (length window - 2)) of
               Some s \<Rightarrow> s
             | None \<Rightarrow> 0)
          else 0)"

text \<open>
  An example window of exactly 200 bars: 199 flat bars at price 0, then one bar at price 1.
\<close>

definition rising_window :: "PriceData list" where
  "rising_window = replicate 199 (bar 0 0 0 0) @ [bar 1 1 1 1]"

text \<open>
  The smoothed average gain and loss that \<^verbatim>\<open>calculateRSI\<close> holds when it forms the
  ratio \<^verbatim>\<open>rs\<close>, and sequences of finite prices.
\<close>

definition rsi_averages :: "jsnum list \<Rightarrow> nat \<Rightarrow> jsnum \<times> jsnum" where
  "rsi_averages prices len =
     (let (gains, losses) = fold (accumulate_change prices) [1..<len + 1] (Fin 0, Fin 0)
      in fold (smooth_change prices len) [len + 1..<length prices]
           (gains / Fin (real len), losses / Fin (real len)))"

definition all_finite :: "jsnum list \<Rightarrow> bool" where
  "all_finite xs \<longleftrightarrow> (\<forall>x \<in> set xs. \<exists>r. x = Fin r)"

text \<open>
  The RSI of the closes of a window, and of the closes with the last one removed, at the
  RSI length trend fusion uses.
\<close>

definition trend_rsi :: "PriceData list \<Rightarrow> TrendSettings option \<Rightarrow> jsnum" where
  "trend_rsi window settings = calculateRSI (map close window) (trend_rsi_length settings)"

definition trend_prev_rsi :: "PriceData list \<Rightarrow> TrendSettings option \<Rightarrow> jsnum" where
  "trend_prev_rsi window settings =
     calculateRSI (butlast (map close window)) (trend_rsi_length settings)"

text \<open>
  The lower bound of a cutoff in a series: the index that has every earlier bar before the
  cutoff and every bar from it on at or after the cutoff.
\<close>

definition lower_bound :: "PriceData list \<Rightarrow> int \<Rightarrow> nat \<Rightarrow> bool" where
  "lower_bound data cutoff k \<longleftrightarrow>
     k \<le> length data \<and>
     (\<forall>i<k. timestamp (data ! i) < cutoff) \<and>
     (\<forall>i. k \<le> i \<and> i < length data \<longrightarrow> cutoff \<le> timestamp (data ! i))"

text \<open>
  The duration of each named range token, in milliseconds, and the cutoff of a token for a
  series whose latest bar is at \<open>latest\<close>: year-to-date anchors to the start of the latest
  bar's UTC year, every other named token subtracts its duration. A token without a name
  in the table gets the selectors' default of one day.
\<close>

definition range_duration :: "string \<Rightarrow> int option" where
  "range_duration token =
     map_of [(''1H'', 3600000), (''1D'', 86400000), (''5D'', 432000000),
             (''1M'', 2592000000), (''3M'', 7776000000), (''6M'', 15552000000),
             (''1Y'', 31536000000), (''5Y'', 157680000000), (''10Y'', 315360000000)] token"

definition range_cutoff :: "(int \<Rightarrow> int) \<Rightarrow> int \<Rightarrow> string \<Rightarrow> int" where
  "range_cutoff startOfYearUTC latest token =
     (if token = ''YTD'' then startOfYearUTC latest
      else case range_duration token of
             Some duration \<Rightarrow> latest - duration
           | None \<Rightarrow> latest - 86400000)"

text \<open>A series of two bars, two days apart.\<close>

definition two_days :: "PriceData list" where
  "two_days = [bar 1 1 1 0, bar 1 1 1 172800000]"

section \<open>Facts about numbers and slices\<close>

lemmas jsnum_defs =
  plus_jsnum_def uminus_jsnum_def minus_jsnum_def times_jsnum_def divide_jsnum_def
  abs_jsnum_def less_jsnum_def less_eq_jsnum_def
  js_add_def js_neg_def js_sub_def js_mul_def js_div_def js_abs_def js_lt_def js_le_def

lemma Fin_arith [simp]:
  "Fin x + Fin y = Fin (x + y)"
  "Fin x - Fin y = Fin (x - y)"
  "Fin x * Fin y = Fin (x * y)"
  "y \<noteq> 0 \<Longrightarrow> Fin x / Fin y = Fin (x / y)"
  "\<bar>Fin x\<bar> = Fin \<bar>x\<bar>"
  by (simp_all add: jsnum_defs)

lemma Fin_compare [simp]:
  "Fin x < Fin y \<longleftrightarrow> x < y"
  "Fin x \<le> Fin y \<longleftrightarrow> x \<le> y"
  by (auto simp: jsnum_defs)

lemma NaN_arith [simp]:
  "NaN + a = NaN" "a + NaN = NaN" "NaN - a = NaN" "a - NaN = NaN"
  "NaN * a = NaN" "a * NaN = NaN" "NaN / a = NaN" "a / NaN = NaN" "\<bar>NaN\<bar> = NaN"
  by (simp_all add: jsnum_defs split: jsnum.splits)

lemma NaN_compare [simp]:
  "\<not> NaN < a" "\<not> a < NaN" "\<not> NaN \<le> a" "\<not> a \<le> NaN"
  by (auto simp: jsnum_defs split: jsnum.splits)

lemma Fin_div_zero:
  "Fin x / Fin 0 = (if 0 < x then PInf else if x < 0 then NInf else NaN)"
  by (simp add: jsnum_defs)

lemma PInf_arith [simp]:
  "Fin x + PInf = PInf" "Fin x / PInf = Fin 0"
  by (simp_all add: jsnum_defs)

lemma js_le_not_gt: "a \<le> b \<Longrightarrow> \<not> b < (a :: jsnum)"
  by (cases a; cases b) (auto simp: jsnum_defs)

lemma js_cross_exclusive:
  "\<not> (p \<le> t \<and> t < c \<and> c < b \<and> b \<le> (p :: jsnum))"
  by (cases p; cases t; cases c; cases b) (auto simp: jsnum_defs)

lemma nat_int_diffs:
  "nat (int a - int b) = a - b"
  "nat (int a - 1) = a - 1"
  "nat (int a + (- int b - 1)) = a - Suc b"
  by linarith+

lemma slice_last: "slice xs (- int n) None = (if n = 0 then xs else drop (length xs - n) xs)"
  by (auto simp: slice_def Let_def max_def nat_int_diffs)

lemma slice_butlast: "slice xs 0 (Some (- 1)) = butlast xs"
  by (cases "xs = []") (auto simp: slice_def Let_def max_def butlast_conv_take nat_int_diffs)

lemma slice_prev:
  "slice xs (- (int p + 1)) (Some (- 1)) = drop (length xs - Suc p) (butlast xs)"
proof (cases "xs = []")
  case True
  then show ?thesis by (simp add: slice_def)
next
  case False
  then have "length xs - Suc 0 - (length xs - Suc p) = length xs - Suc (length xs - Suc p)"
    by simp
  with False show ?thesis
    by (auto simp: slice_def Let_def max_def butlast_conv_take drop_take nat_int_diffs)
qed

lemma slice_from: "0 \<le> k \<Longrightarrow> slice xs k None = drop (nat k) xs"
  by (auto simp: slice_def Let_def min_def)

section \<open>The SSL channel, field by field\<close>

lemma ssl_period_pos: "0 < ssl_period settings"
  by (simp add: ssl_period_def or_period_def split: option.splits)

lemma calculateSSLChannel_short:
  "length priceData < ssl_period settings \<Longrightarrow>
   calculateSSLChannel priceData wicks settings =
     \<lparr>sslUp = Fin 0, sslDown = Fin 0, hlv = 0, signal = NEUTRAL, color = ''#6B7280'',
      buySignal = False, sellSignal = False\<rparr>"
  by (subst calculateSSLChannel.simps) (simp add: ssl_period_def)

lemma recent_ma1:
  "calculateMA (map high (slice window (- int (ssl_period settings)) None))
     (ssl_period settings) (ssl_kind settings) = ssl_ma1 window settings"
  using ssl_period_pos [of settings] by (simp add: ssl_ma1_def slice_last)

lemma recent_ma2:
  "calculateMA (map low (slice window (- int (ssl_period settings)) None))
     (ssl_period settings) (ssl_kind settings) = ssl_ma2 window settings"
  using ssl_period_pos [of settings] by (simp add: ssl_ma2_def slice_last)

lemma recent_length:
  "ssl_period settings \<le> length window \<Longrightarrow>
   length (slice window (- int (ssl_period settings)) None) = ssl_period settings"
  using ssl_period_pos [of settings] by (simp add: slice_last)

lemma recent_last:
  "ssl_period settings \<le> length window \<Longrightarrow>
   slice window (- int (ssl_period settings)) None ! (ssl_period settings - Suc 0) =
   window ! (length window - Suc 0)"
  using ssl_period_pos [of settings] by (simp add: slice_last)

lemma recent_prev:
  "1 < ssl_period settings \<Longrightarrow> ssl_period settings \<le> length window \<Longrightarrow>
   slice window (- int (ssl_period settings)) None ! (ssl_period settings - 2) =
   window ! (length window - 2)"
  by (simp add: slice_last)

lemma determine_hlv_recent:
  assumes "ssl_period settings \<le> length window"
  shows "determine_hlv (slice window (- int (ssl_period settings)) None) wicks
           (ssl_ma1 window settings) (ssl_ma2 window settings) =
         ssl_state window wicks settings"
proof -
  define recent where "recent = slice window (- int (ssl_period settings)) None"
  have len: "length recent = ssl_period settings"
    using assms by (simp add: recent_def recent_length)
  have cur: "recent ! (length recent - 1) = window ! (length window - 1)"
    using assms ssl_period_pos [of settings] by (simp add: recent_def slice_last)
  show ?thesis
  proof (cases "1 < ssl_period settings")
    case True
    then have prev: "recent ! (length recent - 2) = window ! (length window - 2)"
      using assms by (simp add: recent_def slice_last)
    show ?thesis
      unfolding recent_def [symmetric] determine_hlv_def Let_def cur prev
      using True
      by (simp add: len ssl_state_def two_comparisons_def compare_high_def compare_low_def)
  next
    case False
    show ?thesis
      unfolding recent_def [symmetric] determine_hlv_def Let_def cur
      using False
      by (simp add: len ssl_state_def two_comparisons_def compare_high_def compare_low_def)
  qed
qed

lemma calculateSSLChannel_long:
  assumes "ssl_period settings \<le> length window"
  shows "calculateSSLChannel window wicks settings =
     \<lparr>sslUp = (if ssl_state window wicks settings < 0 then ssl_ma2 window settings
               else ssl_ma1 window settings),
      sslDown = (if ssl_state window wicks settings < 0 then ssl_ma1 window settings
                 else ssl_ma2 window settings),
      hlv = ssl_state window wicks settings,
      signal = (if ssl_state window wicks settings = 1 then BUY
                else if ssl_state window wicks settings = - 1 then SELL else NEUTRAL),
      color = (if ssl_state window wicks settings = 1 \<or> ssl_state window wicks settings = - 1
               then ''#EAB308'' else ''#6B7280''),
      buySignal = (1 < ssl_period settings \<and> ssl_state window wicks settings = 1 \<and>
         hlv (calculateSSLChannel
                (drop (length window - Suc (ssl_period settings)) (butlast window))
                wicks settings) = - 1),
      sellSignal = (1 < ssl_period settings \<and> ssl_state window wicks settings = - 1 \<and>
         hlv (calculateSSLChannel
                (drop (length window - Suc (ssl_period settings)) (butlast window))
                wicks settings) = 1)\<rparr>"
proof -
  have not_short: "\<not> length window < ssl_period settings"
    using assms by simp
  show ?thesis
    apply (subst calculateSSLChannel.simps [of window wicks settings])
    apply (simp only: ssl_period_def [symmetric] ssl_kind_def [symmetric] Let_def split_def
        not_short if_False recent_ma1 recent_ma2 recent_length [OF assms]
        determine_hlv_recent [OF assms] slice_prev)
    apply simp
    done
qed

lemma hlv_previous_window:
  "hlv (calculateSSLChannel
          (drop (length window - Suc (ssl_period settings)) (butlast window)) wicks settings) =
   hlv (calculateSSLChannel (butlast window) wicks settings)"
proof (cases "ssl_period settings \<le> length (butlast window)")
  case True
  define prev where "prev = drop (length window - Suc (ssl_period settings)) (butlast window)"
  have len: "length prev = ssl_period settings"
    using True by (simp add: prev_def)
  have rec: "drop (length prev - ssl_period settings) prev =
             drop (length (butlast window) - ssl_period settings) (butlast window)"
    using True by (simp add: prev_def)
  have last_eq: "prev ! (length prev - 1) = butlast window ! (length (butlast window) - 1)"
    using True ssl_period_pos [of settings] by (simp add: prev_def)
  have prev_eq: "1 < ssl_period settings \<Longrightarrow>
      prev ! (length prev - 2) = butlast window ! (length (butlast window) - 2)"
    using True by (simp add: prev_def)
  have "ssl_state prev wicks settings = ssl_state (butlast window) wicks settings"
    unfolding ssl_state_def ssl_ma1_def ssl_ma2_def rec last_eq
    by (simp add: prev_eq cong: if_cong option.case_cong)
  moreover have "ssl_period settings \<le> length prev"
    using len by simp
  ultimately show ?thesis
    using True by (simp add: calculateSSLChannel_long prev_def [symmetric])
next
  case False
  then have "length window - Suc (ssl_period settings) = 0"
    by simp
  then show ?thesis
    by simp
qed

section \<open>Insufficient data\<close>

text \<open>
  C7: with too little data each operation returns its fixed sentinel (and returns: the
  functions are total and have no error result). The moving average of a sequence shorter
  than the period is 0; the RSI of fewer than \<open>len + 1\<close> prices is 50; the SSL channel of a
  window shorter than its period is the neutral result with zero bounds, state 0 and no
  event; trend fusion of a window shorter than the largest of its three periods is its
  neutral result with zero averages and RSI 50.
\<close>

theorem insufficient_data_sentinels:
  "(length source < len \<longrightarrow> calculateMA source len kind = Fin 0) \<and>
   (length prices < rlen + 1 \<longrightarrow> calculateRSI prices rlen = Fin 50) \<and>
   (length window < ssl_period settings \<longrightarrow>
      calculateSSLChannel window wicks settings =
        \<lparr>sslUp = Fin 0, sslDown = Fin 0, hlv = 0, signal = NEUTRAL, color = ''#6B7280'',
         buySignal = False, sellSignal = False\<rparr>) \<and>
   (length window' < trend_min_length tsettings \<longrightarrow>
      calculateTrendFusion window' tsettings =
        \<lparr>trendDirection = TREND_NEUTRAL, shortEMA = Fin 0, longEMA = Fin 0,
         momentum = Fin 0, rsiValue = Fin 50, rsiBias = BIAS_NEUTRAL,
         trend_color = ''#6B7280'', rsiBiasLine = Fin 50, rsiBiasColor = ''#6B7280''\<rparr>)"
proof (intro conjI impI)
  assume "length source < len"
  then show "calculateMA source len kind = Fin 0"
    by (simp add: calculateMA_def)
next
  assume "length prices < rlen + 1"
  then show "calculateRSI prices rlen = Fin 50"
    by (simp add: calculateRSI_def)
next
  assume "length window < ssl_period settings"
  then show "calculateSSLChannel window wicks settings =
        \<lparr>sslUp = Fin 0, sslDown = Fin 0, hlv = 0, signal = NEUTRAL, color = ''#6B7280'',
         buySignal = False, sellSignal = False\<rparr>"
    by (rule calculateSSLChannel_short)
next
  assume "length window' < trend_min_length tsettings"
  then show "calculateTrendFusion window' tsettings =
        \<lparr>trendDirection = TREND_NEUTRAL, shortEMA = Fin 0, longEMA = Fin 0,
         momentum = Fin 0, rsiValue = Fin 50, rsiBias = BIAS_NEUTRAL,
         trend_color = ''#6B7280'', rsiBiasLine = Fin 50, rsiBiasColor = ''#6B7280''\<rparr>"
    by (simp add: calculateTrendFusion_def trend_min_length_def trend_short_def
        trend_long_def trend_rsi_length_def Let_def)
qed

theorem insufficient_data_sentinels_witness:
  "length [Fin 7] < (2 :: nat) \<and> calculateMA [Fin 7] 2 EMA = Fin 0 \<and>
   length [Fin 7, Fin 8] < (2 :: nat) + 1 \<and> calculateRSI [Fin 7, Fin 8] 2 = Fin 50 \<and>
   length ([] :: PriceData list) < ssl_period None \<and>
   calculateSSLChannel [] True None =
     \<lparr>sslUp = Fin 0, sslDown = Fin 0, hlv = 0, signal = NEUTRAL, color = ''#6B7280'',
      buySignal = False, sellSignal = False\<rparr> \<and>
   length ([] :: PriceData list) < trend_min_length None \<and>
   calculateTrendFusion [] None =
     \<lparr>trendDirection = TREND_NEUTRAL, shortEMA = Fin 0, longEMA = Fin 0,
      momentum = Fin 0, rsiValue = Fin 50, rsiBias = BIAS_NEUTRAL,
      trend_color = ''#6B7280'', rsiBiasLine = Fin 50, rsiBiasColor = ''#6B7280''\<rparr>"
  using insufficient_data_sentinels [of "[Fin 7]" 2 EMA "[Fin 7, Fin 8]" 2 "[]" None True "[]" None]
  by (simp add: ssl_period_def trend_min_length_def trend_short_def trend_long_def
      trend_rsi_length_def or_period_def opt_field_def)

section \<open>SSL channel: state, bounds and signal\<close>

lemma ssl_state_range: "ssl_state window wicks settings \<in> {- 1, 0, 1}"
  by (auto simp: ssl_state_def two_comparisons_def split: option.splits if_splits)

lemma ssl_state_spec_eq:
  "1 < ssl_period settings \<Longrightarrow>
   ssl_state window wicks settings = ssl_state_spec window wicks settings"
  by (simp add: ssl_state_def ssl_state_spec_def)

text \<open>
  C3 (amended): for a window of at least \<open>period\<close> bars the state is +1 when the last
  bar's comparison price exceeds \<open>ma1\<close>, else -1 when its low comparison price is below
  \<open>ma2\<close>; else, when the period is at least 2, the same two comparisons on the
  second-to-last bar decide, with 0 if neither resolves; when the period is 1 the state is
  0 at once. The bounds are swapped exactly in state -1, and the signal is BUY, SELL or
  NEUTRAL as the state is +1, -1 or 0.
\<close>

theorem ssl_state_and_bounds:
  assumes "ssl_period settings \<le> length window"
  shows "(1 < ssl_period settings \<longrightarrow>
            hlv (calculateSSLChannel window wicks settings) =
              ssl_state_spec window wicks settings) \<and>
         (ssl_period settings = 1 \<longrightarrow>
            hlv (calculateSSLChannel window wicks settings) =
              (case two_comparisons (ssl_ma1 window settings) (ssl_ma2 window settings) wicks
                      (window ! (length window - 1)) of
                 Some s \<Rightarrow> s | None \<Rightarrow> 0)) \<and>
         (hlv (calculateSSLChannel window wicks settings) = - 1 \<longrightarrow>
            sslUp (calculateSSLChannel window wicks settings) = ssl_ma2 window settings \<and>
            sslDown (calculateSSLChannel window wicks settings) = ssl_ma1 window settings) \<and>
         (hlv (calculateSSLChannel window wicks settings) \<noteq> - 1 \<longrightarrow>
            sslUp (calculateSSLChannel window wicks settings) = ssl_ma1 window settings \<and>
            sslDown (calculateSSLChannel window wicks settings) = ssl_ma2 window settings) \<and>
         signal (calculateSSLChannel window wicks settings) =
           (if hlv (calculateSSLChannel window wicks settings) = 1 then BUY
            else if hlv (calculateSSLChannel window wicks settings) = - 1 then SELL
            else NEUTRAL)"
proof -
  have "ssl_state window wicks settings < 0 \<longleftrightarrow> ssl_state window wicks settings = - 1"
    using ssl_state_range [of window wicks settings] by auto
  moreover have "ssl_period settings = 1 \<Longrightarrow>
      ssl_state window wicks settings =
        (case two_comparisons (ssl_ma1 window settings) (ssl_ma2 window settings) wicks
                (window ! (length window - 1)) of
           Some s \<Rightarrow> s | None \<Rightarrow> 0)"
    by (simp add: ssl_state_def)
  ultimately show ?thesis
    by (simp add: calculateSSLChannel_long [OF assms] ssl_state_spec_eq)
qed

lemma ssl_example_cfg:
  "ssl_period (Some \<lparr>maPeriod = Some n, maType = None\<rparr>) = (if n = 0 then 200 else n)"
  "ssl_kind (Some \<lparr>maPeriod = Some n, maType = None\<rparr>) = SMA"
  by (simp_all add: ssl_period_def ssl_kind_def or_period_def or_type_def opt_field_def)

lemmas ssl_eval =
  ssl_state_spec_def ssl_state_def two_comparisons_def compare_high_def compare_low_def
  ssl_ma1_def ssl_ma2_def ssl_example_cfg calculateMA_def slice_def bar_def

theorem ssl_state_and_bounds_witness:
  "ssl_period (Some \<lparr>maPeriod = Some 2, maType = None\<rparr>)
     \<le> length [bar 1 1 1 0, bar 5 5 5 1, bar 9 9 9 2] \<and>
   hlv (calculateSSLChannel [bar 1 1 1 0, bar 5 5 5 1, bar 9 9 9 2] False
          (Some \<lparr>maPeriod = Some 2, maType = None\<rparr>)) = 1 \<and>
   sslUp (calculateSSLChannel [bar 1 1 1 0, bar 5 5 5 1, bar 9 9 9 2] False
          (Some \<lparr>maPeriod = Some 2, maType = None\<rparr>)) = Fin 7 \<and>
   sslDown (calculateSSLChannel [bar 1 1 1 0, bar 5 5 5 1, bar 9 9 9 2] False
          (Some \<lparr>maPeriod = Some 2, maType = None\<rparr>)) = Fin 7 \<and>
   signal (calculateSSLChannel [bar 1 1 1 0, bar 5 5 5 1, bar 9 9 9 2] False
          (Some \<lparr>maPeriod = Some 2, maType = None\<rparr>)) = BUY \<and>
   ssl_period (Some \<lparr>maPeriod = Some 2, maType = None\<rparr>)
     \<le> length [bar 9 7 8 0, bar 5 3 4 1] \<and>
   hlv (calculateSSLChannel [bar 9 7 8 0, bar 5 3 4 1] True
          (Some \<lparr>maPeriod = Some 2, maType = None\<rparr>)) = - 1 \<and>
   sslUp (calculateSSLChannel [bar 9 7 8 0, bar 5 3 4 1] True
          (Some \<lparr>maPeriod = Some 2, maType = None\<rparr>)) = Fin 5 \<and>
   sslDown (calculateSSLChannel [bar 9 7 8 0, bar 5 3 4 1] True
          (Some \<lparr>maPeriod = Some 2, maType = None\<rparr>)) = Fin 7 \<and>
   signal (calculateSSLChannel [bar 9 7 8 0, bar 5 3 4 1] True
          (Some \<lparr>maPeriod = Some 2, maType = None\<rparr>)) = SELL \<and>
   ssl_period (Some \<lparr>maPeriod = Some 1, maType = None\<rparr>)
     \<le> length [bar 10 10 10 0, bar 5 5 5 1] \<and>
   hlv (calculateSSLChannel [bar 10 10 10 0, bar 5 5 5 1] False
          (Some \<lparr>maPeriod = Some 1, maType = None\<rparr>)) = 0 \<and>
   signal (calculateSSLChannel [bar 10 10 10 0, bar 5 5 5 1] False
          (Some \<lparr>maPeriod = Some 1, maType = None\<rparr>)) = NEUTRAL"
proof -
  have h1: "ssl_period (Some \<lparr>maPeriod = Some 2, maType = None\<rparr>)
             \<le> length [bar 1 1 1 0, bar 5 5 5 1, bar 9 9 9 2]"
    and h2: "ssl_period (Some \<lparr>maPeriod = Some 2, maType = None\<rparr>)
             \<le> length [bar 9 7 8 0, bar 5 3 4 1]"
    and h3: "ssl_period (Some \<lparr>maPeriod = Some 1, maType = None\<rparr>)
             \<le> length [bar 10 10 10 0, bar 5 5 5 1]"
    by (simp_all add: ssl_example_cfg)
  have s1: "ssl_state_spec [bar 1 1 1 0, bar 5 5 5 1, bar 9 9 9 2] False
             (Some \<lparr>maPeriod = Some 2, maType = None\<rparr>) = 1"
    and s2: "ssl_state_spec [bar 9 7 8 0, bar 5 3 4 1] True
             (Some \<lparr>maPeriod = Some 2, maType = None\<rparr>) = - 1"
    by (simp_all add: ssl_eval)
  have m1: "ssl_ma1 [bar 1 1 1 0, bar 5 5 5 1, bar 9 9 9 2]
             (Some \<lparr>maPeriod = Some 2, maType = None\<rparr>) = Fin 7"
      "ssl_ma2 [bar 1 1 1 0, bar 5 5 5 1, bar 9 9 9 2]
             (Some \<lparr>maPeriod = Some 2, maType = None\<rparr>) = Fin 7"
    and m2: "ssl_ma1 [bar 9 7 8 0, bar 5 3 4 1]
             (Some \<lparr>maPeriod = Some 2, maType = None\<rparr>) = Fin 7"
      "ssl_ma2 [bar 9 7 8 0, bar 5 3 4 1]
             (Some \<lparr>maPeriod = Some 2, maType = None\<rparr>) = Fin 5"
    and m3: "two_comparisons
        (ssl_ma1 [bar 10 10 10 0, bar 5 5 5 1] (Some \<lparr>maPeriod = Some 1, maType = None\<rparr>))
        (ssl_ma2 [bar 10 10 10 0, bar 5 5 5 1] (Some \<lparr>maPeriod = Some 1, maType = None\<rparr>))
        False ([bar 10 10 10 0, bar 5 5 5 1] ! (length [bar 10 10 10 0, bar 5 5 5 1] - 1)) = None"
    by (simp_all add: ssl_eval)
  have r1: "hlv (calculateSSLChannel [bar 1 1 1 0, bar 5 5 5 1, bar 9 9 9 2] False
          (Some \<lparr>maPeriod = Some 2, maType = None\<rparr>)) = 1 \<and>
   sslUp (calculateSSLChannel [bar 1 1 1 0, bar 5 5 5 1, bar 9 9 9 2] False
          (Some \<lparr>maPeriod = Some 2, maType = None\<rparr>)) = Fin 7 \<and>
   sslDown (calculateSSLChannel [bar 1 1 1 0, bar 5 5 5 1, bar 9 9 9 2] False
          (Some \<lparr>maPeriod = Some 2, maType = None\<rparr>)) = Fin 7 \<and>
   signal (calculateSSLChannel [bar 1 1 1 0, bar 5 5 5 1, bar 9 9 9 2] False
          (Some \<lparr>maPeriod = Some 2, maType = None\<rparr>)) = BUY"
    using ssl_state_and_bounds [OF h1, of False]
    by (simp add: s1 m1 ssl_example_cfg)
  have r2: "hlv (calculateSSLChannel [bar 9 7 8 0, bar 5 3 4 1] True
          (Some \<lparr>maPeriod = Some 2, maType = None\<rparr>)) = - 1 \<and>
   sslUp (calculateSSLChannel [bar 9 7 8 0, bar 5 3 4 1] True
          (Some \<lparr>maPeriod = Some 2, maType = None\<rparr>)) = Fin 5 \<and>
   sslDown (calculateSSLChannel [bar 9 7 8 0, bar 5 3 4 1] True
          (Some \<lparr>maPeriod = Some 2, maType = None\<rparr>)) = Fin 7 \<and>
   signal (calculateSSLChannel [bar 9 7 8 0, bar 5 3 4 1] True
          (Some \<lparr>maPeriod = Some 2, maType = None\<rparr>)) = SELL"
    using ssl_state_and_bounds [OF h2, of True]
    by (simp add: s2 m2 ssl_example_cfg)
  have r3: "hlv (calculateSSLChannel [bar 10 10 10 0, bar 5 5 5 1] False
          (Some \<lparr>maPeriod = Some 1, maType = None\<rparr>)) = 0 \<and>
   signal (calculateSSLChannel [bar 10 10 10 0, bar 5 5 5 1] False
          (Some \<lparr>maPeriod = Some 1, maType = None\<rparr>)) = NEUTRAL"
  proof -
    note t = ssl_state_and_bounds [OF h3, of False]
    have "ssl_period (Some \<lparr>maPeriod = Some 1, maType = None\<rparr>) = 1"
      by (simp add: ssl_example_cfg)
    with t have "hlv (calculateSSLChannel [bar 10 10 10 0, bar 5 5 5 1] False
          (Some \<lparr>maPeriod = Some 1, maType = None\<rparr>)) =
        (case two_comparisons
           (ssl_ma1 [bar 10 10 10 0, bar 5 5 5 1] (Some \<lparr>maPeriod = Some 1, maType = None\<rparr>))
           (ssl_ma2 [bar 10 10 10 0, bar 5 5 5 1] (Some \<lparr>maPeriod = Some 1, maType = None\<rparr>))
           False ([bar 10 10 10 0, bar 5 5 5 1] ! (length [bar 10 10 10 0, bar 5 5 5 1] - 1)) of
           Some s \<Rightarrow> s | None \<Rightarrow> 0)"
      by blast
    then have "hlv (calculateSSLChannel [bar 10 10 10 0, bar 5 5 5 1] False
          (Some \<lparr>maPeriod = Some 1, maType = None\<rparr>)) = 0"
      unfolding m3 by simp
    with t show ?thesis
      by simp
  qed
  from h1 h2 h3 r1 r2 r3 show ?thesis
    by blast
qed

text \<open>
  C3 as stated fails at period 1: the last bar resolves neither comparison, the
  second-to-last bar closes above \<open>ma1\<close>, and the code still reports state 0.
\<close>

theorem ssl_state_period_one_counterexample:
  "ssl_period (Some \<lparr>maPeriod = Some 1, maType = None\<rparr>)
     \<le> length [bar 10 10 10 0, bar 5 5 5 1] \<and>
   hlv (calculateSSLChannel [bar 10 10 10 0, bar 5 5 5 1] False
          (Some \<lparr>maPeriod = Some 1, maType = None\<rparr>)) = 0 \<and>
   ssl_state_spec [bar 10 10 10 0, bar 5 5 5 1] False
          (Some \<lparr>maPeriod = Some 1, maType = None\<rparr>) = 1"
  by (simp add: calculateSSLChannel_long ssl_state_def ssl_state_spec_def two_comparisons_def
      compare_high_def compare_low_def ssl_ma1_def ssl_ma2_def ssl_example_cfg calculateMA_def
      slice_def bar_def)

section \<open>SSL channel: crossover events\<close>

lemma js_lt_irrefl: "\<not> a < (a :: jsnum)"
  by (cases a) (simp_all add: jsnum_defs)

lemma calculateMA_single: "calculateMA [h] (Suc 0) kind = h"
  by (cases h; cases kind) (simp_all add: calculateMA_def slice_def num_at_def jsnum_defs)

lemma ssl_state_period_one:
  assumes "ssl_period settings = 1" and "window \<noteq> []" and "bar_invariant (last window)"
  shows "ssl_state window wicks settings = 0"
proof -
  have "window = butlast window @ [last window]"
    using assms(2) by simp
  then have "drop (length (butlast window)) window = [last window]"
    by (metis append_eq_conv_conj)
  then have d: "drop (length window - Suc 0) window = [last window]"
    by simp
  have cur: "window ! (length window - Suc 0) = last window"
    using assms(2) by (simp add: last_conv_nth)
  have "ssl_ma1 window settings = high (last window)" "ssl_ma2 window settings = low (last window)"
    by (simp_all add: ssl_ma1_def ssl_ma2_def assms(1) d calculateMA_single)
  then show ?thesis
    using assms(3)
    by (simp add: ssl_state_def two_comparisons_def compare_high_def compare_low_def cur assms(1)
        bar_invariant_def js_lt_irrefl js_le_not_gt)
qed

text \<open>
  C4: for a window of at least \<open>period\<close> bars, \<open>buySignal\<close> holds exactly when the state
  of the window is +1 and the state of the window without its last bar is -1, and
  \<open>sellSignal\<close> exactly when they are -1 and +1. With period 1 the code computes no
  event at all; a bar that satisfies the bar invariant then has state 0, so the
  equivalences hold there too. The hypothesis asks for the invariant only in that case.
\<close>

theorem crossover_events:
  assumes "ssl_period settings \<le> length window"
    and "1 < ssl_period settings \<or> (\<forall>b \<in> set window. bar_invariant b)"
  shows "(buySignal (calculateSSLChannel window wicks settings) \<longleftrightarrow>
            hlv (calculateSSLChannel window wicks settings) = 1 \<and>
            hlv (calculateSSLChannel (butlast window) wicks settings) = - 1) \<and>
         (sellSignal (calculateSSLChannel window wicks settings) \<longleftrightarrow>
            hlv (calculateSSLChannel window wicks settings) = - 1 \<and>
            hlv (calculateSSLChannel (butlast window) wicks settings) = 1)"
proof (cases "1 < ssl_period settings")
  case True
  then show ?thesis
    by (simp add: calculateSSLChannel_long [OF assms(1)] hlv_previous_window)
next
  case False
  then have p: "ssl_period settings = 1"
    using ssl_period_pos [of settings] by simp
  with assms(1) have ne: "window \<noteq> []"
    by auto
  with assms(2) False have "bar_invariant (last window)"
    by simp
  then have "ssl_state window wicks settings = 0"
    using p ne by (simp add: ssl_state_period_one)
  then show ?thesis
    by (simp add: calculateSSLChannel_long [OF assms(1)] p)
qed

theorem crossover_events_witness:
  "ssl_period (Some \<lparr>maPeriod = Some 2, maType = None\<rparr>) \<le> length [bar 9 9 9 0, bar 1 1 1 1, bar 9 9 9 2] \<and>
   (1 < ssl_period (Some \<lparr>maPeriod = Some 2, maType = None\<rparr>) \<or> (\<forall>b \<in> set [bar 9 9 9 0, bar 1 1 1 1, bar 9 9 9 2]. bar_invariant b)) \<and>
   buySignal (calculateSSLChannel [bar 9 9 9 0, bar 1 1 1 1, bar 9 9 9 2] False (Some \<lparr>maPeriod = Some 2, maType = None\<rparr>)) \<and>
   \<not> sellSignal (calculateSSLChannel [bar 9 9 9 0, bar 1 1 1 1, bar 9 9 9 2] False (Some \<lparr>maPeriod = Some 2, maType = None\<rparr>)) \<and>
   hlv (calculateSSLChannel [bar 9 9 9 0, bar 1 1 1 1, bar 9 9 9 2] False (Some \<lparr>maPeriod = Some 2, maType = None\<rparr>)) = 1 \<and>
   hlv (calculateSSLChannel (butlast [bar 9 9 9 0, bar 1 1 1 1, bar 9 9 9 2]) False (Some \<lparr>maPeriod = Some 2, maType = None\<rparr>)) = - 1 \<and>
   ssl_period (Some \<lparr>maPeriod = Some 2, maType = None\<rparr>) \<le> length [bar 1 1 1 0, bar 9 9 9 1, bar 1 1 1 2] \<and>
   sellSignal (calculateSSLChannel [bar 1 1 1 0, bar 9 9 9 1, bar 1 1 1 2] False (Some \<lparr>maPeriod = Some 2, maType = None\<rparr>)) \<and>
   \<not> buySignal (calculateSSLChannel [bar 1 1 1 0, bar 9 9 9 1, bar 1 1 1 2] False (Some \<lparr>maPeriod = Some 2, maType = None\<rparr>)) \<and>
   ssl_period (Some \<lparr>maPeriod = Some 1, maType = None\<rparr>) \<le> length [bar 9 7 8 0, bar 5 3 4 1] \<and>
   (1 < ssl_period (Some \<lparr>maPeriod = Some 1, maType = None\<rparr>) \<or> (\<forall>b \<in> set [bar 9 7 8 0, bar 5 3 4 1]. bar_invariant b)) \<and>
   \<not> buySignal (calculateSSLChannel [bar 9 7 8 0, bar 5 3 4 1] True (Some \<lparr>maPeriod = Some 1, maType = None\<rparr>)) \<and>
   \<not> sellSignal (calculateSSLChannel [bar 9 7 8 0, bar 5 3 4 1] True (Some \<lparr>maPeriod = Some 1, maType = None\<rparr>)) \<and>
   hlv (calculateSSLChannel [bar 9 7 8 0, bar 5 3 4 1] True (Some \<lparr>maPeriod = Some 1, maType = None\<rparr>)) = 0"
proof -
  have h: "ssl_period (Some \<lparr>maPeriod = Some 2, maType = None\<rparr>) \<le> length [bar 9 9 9 0, bar 1 1 1 1, bar 9 9 9 2]"
    "ssl_period (Some \<lparr>maPeriod = Some 2, maType = None\<rparr>) \<le> length [bar 1 1 1 0, bar 9 9 9 1, bar 1 1 1 2]"
    "ssl_period (Some \<lparr>maPeriod = Some 1, maType = None\<rparr>) \<le> length [bar 9 7 8 0, bar 5 3 4 1]"
    by (simp_all add: ssl_example_cfg)
  have g: "1 < ssl_period (Some \<lparr>maPeriod = Some 2, maType = None\<rparr>) \<or>
           (\<forall>b \<in> set [bar 9 9 9 0, bar 1 1 1 1, bar 9 9 9 2]. bar_invariant b)"
    "1 < ssl_period (Some \<lparr>maPeriod = Some 2, maType = None\<rparr>) \<or>
           (\<forall>b \<in> set [bar 1 1 1 0, bar 9 9 9 1, bar 1 1 1 2]. bar_invariant b)"
    "1 < ssl_period (Some \<lparr>maPeriod = Some 1, maType = None\<rparr>) \<or> (\<forall>b \<in> set [bar 9 7 8 0, bar 5 3 4 1]. bar_invariant b)"
    by (simp_all add: ssl_example_cfg bar_invariant_def bar_def)
  have c: "hlv (calculateSSLChannel [bar 9 9 9 0, bar 1 1 1 1, bar 9 9 9 2] False (Some \<lparr>maPeriod = Some 2, maType = None\<rparr>)) = 1"
    "hlv (calculateSSLChannel (butlast [bar 9 9 9 0, bar 1 1 1 1, bar 9 9 9 2]) False (Some \<lparr>maPeriod = Some 2, maType = None\<rparr>)) = - 1"
    "hlv (calculateSSLChannel [bar 1 1 1 0, bar 9 9 9 1, bar 1 1 1 2] False (Some \<lparr>maPeriod = Some 2, maType = None\<rparr>)) = - 1"
    "hlv (calculateSSLChannel (butlast [bar 1 1 1 0, bar 9 9 9 1, bar 1 1 1 2]) False (Some \<lparr>maPeriod = Some 2, maType = None\<rparr>)) = 1"
    "hlv (calculateSSLChannel [bar 9 7 8 0, bar 5 3 4 1] True (Some \<lparr>maPeriod = Some 1, maType = None\<rparr>)) = 0"
    by (simp_all add: calculateSSLChannel_long ssl_eval)
  from crossover_events [OF h(1) g(1), of False] c
  have r1: "buySignal (calculateSSLChannel [bar 9 9 9 0, bar 1 1 1 1, bar 9 9 9 2] False (Some \<lparr>maPeriod = Some 2, maType = None\<rparr>)) \<and>
     \<not> sellSignal (calculateSSLChannel [bar 9 9 9 0, bar 1 1 1 1, bar 9 9 9 2] False (Some \<lparr>maPeriod = Some 2, maType = None\<rparr>))"
    by simp
  from crossover_events [OF h(2) g(2), of False] c
  have r2: "sellSignal (calculateSSLChannel [bar 1 1 1 0, bar 9 9 9 1, bar 1 1 1 2] False (Some \<lparr>maPeriod = Some 2, maType = None\<rparr>)) \<and>
     \<not> buySignal (calculateSSLChannel [bar 1 1 1 0, bar 9 9 9 1, bar 1 1 1 2] False (Some \<lparr>maPeriod = Some 2, maType = None\<rparr>))"
    by simp
  from crossover_events [OF h(3) g(3), of True] c
  have r3: "\<not> buySignal (calculateSSLChannel [bar 9 7 8 0, bar 5 3 4 1] True (Some \<lparr>maPeriod = Some 1, maType = None\<rparr>)) \<and>
     \<not> sellSignal (calculateSSLChannel [bar 9 7 8 0, bar 5 3 4 1] True (Some \<lparr>maPeriod = Some 1, maType = None\<rparr>))"
    by simp
  from h g c r1 r2 r3 show ?thesis
    by blast
qed

text \<open>
  The bar invariant matters at period 1 only, and there it is needed: with a last bar that
  closes above its high and a previous bar that closes below its low, the two states are
  +1 and -1 and no event is reported.
\<close>

lemma malformed_bars_hide_crossover:
  "hlv (calculateSSLChannel
          [\<lparr>open = Fin 5, high = Fin 5, low = Fin 5, close = Fin 1, timestamp = 0\<rparr>,
           \<lparr>open = Fin 5, high = Fin 5, low = Fin 5, close = Fin 9, timestamp = 1\<rparr>]
          False (Some \<lparr>maPeriod = Some 1, maType = None\<rparr>)) = 1 \<and>
   hlv (calculateSSLChannel
          (butlast
            [\<lparr>open = Fin 5, high = Fin 5, low = Fin 5, close = Fin 1, timestamp = 0\<rparr>,
             \<lparr>open = Fin 5, high = Fin 5, low = Fin 5, close = Fin 9, timestamp = 1\<rparr>])
          False (Some \<lparr>maPeriod = Some 1, maType = None\<rparr>)) = - 1 \<and>
   \<not> buySignal (calculateSSLChannel
          [\<lparr>open = Fin 5, high = Fin 5, low = Fin 5, close = Fin 1, timestamp = 0\<rparr>,
           \<lparr>open = Fin 5, high = Fin 5, low = Fin 5, close = Fin 9, timestamp = 1\<rparr>]
          False (Some \<lparr>maPeriod = Some 1, maType = None\<rparr>))"
  by (simp add: calculateSSLChannel_long ssl_state_def two_comparisons_def
      compare_high_def compare_low_def ssl_ma1_def ssl_ma2_def ssl_example_cfg calculateMA_def
      slice_def)

section \<open>Moving averages of example sequences\<close>

lemma fold_sum_zeros:
  "fold (\<lambda>val sum. sum + val) (replicate n (Fin 0)) (Fin a) = Fin a"
  by (induction n) simp_all

lemma map_num_at_tl: "map (num_at xs) [1..<length xs] = tl xs"
  by (rule nth_equalityI) (auto simp: num_at_def nth_tl)

lemma ema_fold_tl:
  "fold (\<lambda>i ema. num_at xs i * k + ema * c) [1..<length xs] a =
   fold (\<lambda>x ema. x * k + ema * c) (tl xs) a"
proof -
  have "fold (\<lambda>x ema. x * k + ema * c) (map (num_at xs) [1..<length xs]) a =
        fold (\<lambda>i ema. num_at xs i * k + ema * c) [1..<length xs] a"
    unfolding fold_map comp_def ..
  then show ?thesis
    unfolding map_num_at_tl by (rule sym)
qed

lemma calculateMA_EMA:
  "len \<le> length xs \<Longrightarrow>
   calculateMA xs len EMA =
     fold (\<lambda>x ema. x * (Fin 2 / Fin (real len + 1)) + ema * (Fin 1 - Fin 2 / Fin (real len + 1)))
       (tl xs) (num_at xs 0)"
  unfolding calculateMA_def Let_def ema_fold_tl by simp

lemma ema_fold_zeros:
  "fold (\<lambda>x ema. x * Fin k + ema * Fin c) (replicate n (Fin 0)) (Fin 0) = Fin 0"
  by (induction n) simp_all

lemma ema_zeros_then_one:
  "fold (\<lambda>x ema. x * Fin k + ema * Fin c) (replicate n (Fin 0) @ [Fin 1]) (Fin 0) = Fin k"
  unfolding fold_append comp_apply ema_fold_zeros by simp

lemma rising_window_length: "length rising_window = 200"
  by (simp add: rising_window_def)

lemma rising_window_closes:
  "map close rising_window = replicate 199 (Fin 0) @ [Fin 1]"
  "map high rising_window = replicate 199 (Fin 0) @ [Fin 1]"
  "map low rising_window = replicate 199 (Fin 0) @ [Fin 1]"
  by (simp_all add: rising_window_def bar_def)

lemma rising_window_ema:
  assumes "len \<le> 200"
  shows "calculateMA (map close rising_window) len EMA = Fin (2 / (real len + 1))"
proof -
  have t: "tl (replicate 199 (Fin 0) @ [Fin 1]) = replicate 198 (Fin 0) @ [Fin 1]"
    by (simp add: numeral_eq_Suc)
  have z: "num_at (replicate 199 (Fin 0) @ [Fin 1]) 0 = Fin 0"
    by (simp add: num_at_def nth_append)
  have "real len + 1 \<noteq> 0"
    using of_nat_0_le_iff [of len, where 'a = real] by linarith
  then have k: "Fin 2 / Fin (real len + 1) = Fin (2 / (real len + 1))"
    and c: "Fin 1 - Fin (2 / (real len + 1)) = Fin (1 - 2 / (real len + 1))"
    by simp_all
  have l: "len \<le> length (replicate 199 (Fin 0) @ [Fin 1 :: jsnum])"
    using assms by simp
  show ?thesis
    unfolding rising_window_closes calculateMA_EMA [OF l] t z k c ema_zeros_then_one ..
qed


lemma trend_defaults:
  "trend_short None = 14" "trend_long None = 50" "trend_rsi_length None = 14"
  "trend_top None = Fin 60" "trend_bottom None = Fin 40" "trend_min_length None = 50"
  by (simp_all add: trend_short_def trend_long_def trend_rsi_length_def trend_top_def
      trend_bottom_def trend_min_length_def or_period_def or_level_def opt_field_def)

lemma ssl_defaults: "ssl_period None = 200" "ssl_kind None = SMA"
  by (simp_all add: ssl_period_def ssl_kind_def or_period_def or_type_def opt_field_def)

lemma trendDirection_calculateTrendFusion:
  assumes "trend_min_length settings \<le> length window"
  shows "trendDirection (calculateTrendFusion window settings) =
     (if calculateMA (map close window) (trend_short settings) EMA
           > calculateMA (map close window) (trend_long settings) EMA then GREEN
      else if calculateMA (map close window) (trend_short settings) EMA
           < calculateMA (map close window) (trend_long settings) EMA then RED
      else TREND_NEUTRAL)"
proof -
  have "\<not> length window < max (max (trend_short settings) (trend_long settings))
            (trend_rsi_length settings)"
    using assms by (auto simp: trend_min_length_def)
  then show ?thesis
    unfolding calculateTrendFusion_def trend_short_def [symmetric] trend_long_def [symmetric]
      trend_rsi_length_def [symmetric] Let_def split_def
    by simp
qed

lemma rising_window_trend: "trendDirection (calculateTrendFusion rising_window None) = GREEN"
  by (simp add: trendDirection_calculateTrendFusion trend_defaults rising_window_length
      rising_window_ema)

lemma rising_window_last:
  "rising_window ! (length rising_window - Suc 0) = bar 1 1 1 1"
  "last rising_window = bar 1 1 1 1"
  by (simp_all add: rising_window_def nth_append)

lemma calculateMA_SMA:
  "len \<le> length xs \<Longrightarrow> 0 < len \<Longrightarrow>
   calculateMA xs len SMA =
     fold (\<lambda>val sum. sum + val) (drop (length xs - len) xs) (Fin 0) / Fin (real len)"
  unfolding calculateMA_def slice_last by simp

lemma rising_window_sma:
  "ssl_ma1 rising_window None = Fin (1 / 200)"
proof -
  have s: "fold (\<lambda>val sum. sum + val) (replicate 199 (Fin 0) @ [Fin 1]) (Fin 0) = Fin 1"
    unfolding fold_append comp_apply fold_sum_zeros by simp
  have l: "200 \<le> length (map high rising_window)" "0 < (200 :: nat)"
    by (simp_all add: rising_window_length)
  have d: "drop (length (map high rising_window) - 200) (map high rising_window) =
           replicate 199 (Fin 0) @ [Fin 1]"
    by (simp add: rising_window_length rising_window_closes)
  have "calculateMA (map high rising_window) 200 SMA = Fin 1 / Fin (real 200)"
    unfolding calculateMA_SMA [OF l] d s ..
  then show ?thesis
    by (simp add: ssl_ma1_def ssl_defaults rising_window_length)
qed

lemma rising_window_ssl: "signal (calculateSSLChannel rising_window False None) = BUY"
proof -
  have "ssl_state rising_window False None = 1"
    by (simp add: ssl_state_def two_comparisons_def compare_high_def rising_window_last
        rising_window_sma bar_def)
  then show ?thesis
    by (simp add: calculateSSLChannel_long ssl_defaults rising_window_length)
qed

lemma rising_window_signal: "type (calculateTradingSignal now rising_window) = BUY"
  by (simp add: calculateTradingSignal_def rising_window_length rising_window_ssl
      rising_window_trend Let_def)

section \<open>Signal combination: the confluence rule and the 200-bar gate\<close>

text \<open>
  C1: for a window of at least 200 bars the combined signal is BUY exactly when the SSL
  channel (default settings, closes compared) signals BUY and trend fusion (default
  settings) reports GREEN, SELL exactly when they report SELL and RED, and NEUTRAL
  otherwise; its timestamp and price are the timestamp and the close of the last bar.
\<close>

theorem combined_signal:
  assumes "200 \<le> length window"
  shows "(type (calculateTradingSignal now window) = BUY \<longleftrightarrow>
            signal (calculateSSLChannel window False None) = BUY \<and>
            trendDirection (calculateTrendFusion window None) = GREEN) \<and>
         (type (calculateTradingSignal now window) = SELL \<longleftrightarrow>
            signal (calculateSSLChannel window False None) = SELL \<and>
            trendDirection (calculateTrendFusion window None) = RED) \<and>
         (type (calculateTradingSignal now window) = NEUTRAL \<longleftrightarrow>
            \<not> (signal (calculateSSLChannel window False None) = BUY \<and>
               trendDirection (calculateTrendFusion window None) = GREEN) \<and>
            \<not> (signal (calculateSSLChannel window False None) = SELL \<and>
               trendDirection (calculateTrendFusion window None) = RED)) \<and>
         signal_timestamp (calculateTradingSignal now window) = timestamp (last window) \<and>
         price (calculateTradingSignal now window) = close (last window)"
proof -
  from assms have "window \<noteq> []" by auto
  then have "window ! (length window - 1) = last window"
    by (simp add: last_conv_nth)
  with assms show ?thesis
    by (simp add: calculateTradingSignal_def Let_def)
qed

theorem combined_signal_witness:
  "200 \<le> length rising_window \<and>
   signal (calculateSSLChannel rising_window False None) = BUY \<and>
   trendDirection (calculateTrendFusion rising_window None) = GREEN \<and>
   type (calculateTradingSignal 7 rising_window) = BUY \<and>
   signal_timestamp (calculateTradingSignal 7 rising_window) = 1 \<and>
   price (calculateTradingSignal 7 rising_window) = Fin 1"
proof -
  have h: "200 \<le> length rising_window"
    by (simp add: rising_window_length)
  show ?thesis
    using h combined_signal [OF h, of 7] rising_window_ssl rising_window_trend
    by (simp add: rising_window_last bar_def)
qed

text \<open>
  C2: a window of fewer than 200 bars always gives NEUTRAL, priced at the close of the last
  bar, or at 0 when the window is empty; and 200 is the least length that can give
  anything else, since some window of exactly 200 bars gives a signal that is not NEUTRAL.
\<close>

theorem short_window_neutral:
  "(\<forall>now window. length window < 200 \<longrightarrow>
      type (calculateTradingSignal now window) = NEUTRAL \<and>
      price (calculateTradingSignal now window) =
        (if window = [] then Fin 0 else close (last window))) \<and>
   (\<exists>now window. length window = 200 \<and> type (calculateTradingSignal now window) \<noteq> NEUTRAL)"
proof (intro conjI allI impI)
  fix now :: int and window :: "PriceData list"
  assume "length window < 200"
  then show "type (calculateTradingSignal now window) = NEUTRAL"
    by (simp add: calculateTradingSignal_def)
next
  fix now :: int and window :: "PriceData list"
  assume "length window < 200"
  then show "price (calculateTradingSignal now window) =
        (if window = [] then Fin 0 else close (last window))"
    by (simp add: calculateTradingSignal_def last_conv_nth)
next
  have "length rising_window = 200 \<and> type (calculateTradingSignal 0 rising_window) \<noteq> NEUTRAL"
    by (simp add: rising_window_length rising_window_signal)
  then show "\<exists>now window. length window = 200 \<and>
      type (calculateTradingSignal now window) \<noteq> NEUTRAL"
    by blast
qed

theorem short_window_neutral_witness:
  "length (replicate 199 (bar 3 1 2 5)) < 200 \<and>
   type (calculateTradingSignal 7 (replicate 199 (bar 3 1 2 5))) = NEUTRAL \<and>
   price (calculateTradingSignal 7 (replicate 199 (bar 3 1 2 5))) = Fin 2 \<and>
   length ([] :: PriceData list) < 200 \<and>
   type (calculateTradingSignal 7 []) = NEUTRAL \<and>
   price (calculateTradingSignal 7 []) = Fin 0"
proof -
  have a: "length (replicate 199 (bar 3 1 2 5)) < 200" "length ([] :: PriceData list) < 200"
    by simp_all
  from short_window_neutral
  have "\<And>now window. length window < 200 \<Longrightarrow>
      type (calculateTradingSignal now window) = NEUTRAL \<and>
      price (calculateTradingSignal now window) =
        (if window = [] then Fin 0 else close (last window))"
    by blast
  from this [OF a(1), of 7] this [OF a(2), of 7] a show ?thesis
    by (simp add: bar_def)
qed

section \<open>Exponential moving average of a constant sequence\<close>

lemma fold_invariant:
  assumes "P s" and "\<And>x s. x \<in> set xs \<Longrightarrow> P s \<Longrightarrow> P (f x s)"
  shows "P (fold f xs s)"
  using assms by (induction xs arbitrary: s) auto

text \<open>In exact arithmetic the EMA of a constant sequence is the constant.\<close>

lemma ema_fold_const:
  "fold (\<lambda>x ema. x * Fin k + ema * Fin (1 - k)) (replicate m (Fin v)) (Fin v) = Fin v"
  by (induction m) (simp_all add: algebra_simps)

lemma ema_exact_constant:
  assumes "1 \<le> p" and "p \<le> n"
  shows "calculateMA (replicate n (Fin v)) p EMA = Fin v"
proof -
  have l: "p \<le> length (replicate n (Fin v))"
    using assms by simp
  have t: "tl (replicate n (Fin v)) = replicate (n - 1) (Fin v)"
    by (cases n) simp_all
  have z: "num_at (replicate n (Fin v)) 0 = Fin v"
    using assms by (simp add: num_at_def)
  have "real p + 1 \<noteq> 0"
    using of_nat_0_le_iff [of p, where 'a = real] by linarith
  then have k: "Fin 2 / Fin (real p + 1) = Fin (2 / (real p + 1))"
    and c: "Fin 1 - Fin (2 / (real p + 1)) = Fin (1 - 2 / (real p + 1))"
    by simp_all
  show ?thesis
    unfolding calculateMA_EMA [OF l] t z k c ema_fold_const ..
qed

subsection \<open>Rounding to the nearest double\<close>













subsection \<open>One rounded step of the recurrence\<close>






subsection \<open>The rounded loop\<close>


lemma calculateMA_fl_exact: "calculateMA_fl Fin source len kind = calculateMA source len kind"
proof -
  have "fl Fin = (\<lambda>a. a)"
    by (rule ext) (simp add: fl_def split: jsnum.splits)
  then show ?thesis
    by (cases kind) (simp_all add: calculateMA_fl_def calculateMA_def)
qed









section \<open>Range of the relative strength index\<close>

text \<open>
  What the code guarantees for finite prices and a positive length: the two averages are
  finite and non-negative; the result is in \<open>[0, 100]\<close> when the average loss is positive,
  is 100 when the average loss is zero and the average gain positive, and is NaN when both
  are zero.
\<close>

lemma calculateRSI_averages:
  "\<not> length prices < len + 1 \<Longrightarrow>
   calculateRSI prices len =
     Fin 100 - Fin 100 / (Fin 1 + fst (rsi_averages prices len) / snd (rsi_averages prices len))"
  unfolding calculateRSI_def rsi_averages_def Let_def split_def by simp

lemma num_at_finite:
  "all_finite xs \<Longrightarrow> i < length xs \<Longrightarrow> \<exists>r. num_at xs i = Fin r"
  by (simp add: all_finite_def num_at_def)

lemma accumulate_change_nonneg:
  assumes "all_finite prices" and "i < length prices" and "0 < i"
    and "s = (Fin a, Fin b)" and "0 \<le> a" and "0 \<le> b"
  shows "\<exists>a' b'. accumulate_change prices i s = (Fin a', Fin b') \<and> 0 \<le> a' \<and> 0 \<le> b'"
proof -
  obtain x where x: "num_at prices i = Fin x"
    using num_at_finite [OF assms(1,2)] by blast
  have "i - Suc 0 < length prices"
    using assms(2) by simp
  then obtain y where y: "num_at prices (i - Suc 0) = Fin y"
    using num_at_finite [OF assms(1)] by blast
  show ?thesis
    using assms(4-6) by (simp add: accumulate_change_def x y Let_def)
qed

lemma smooth_change_nonneg:
  assumes "all_finite prices" and "i < length prices" and "0 < len"
    and "s = (Fin a, Fin b)" and "0 \<le> a" and "0 \<le> b"
  shows "\<exists>a' b'. smooth_change prices len i s = (Fin a', Fin b') \<and> 0 \<le> a' \<and> 0 \<le> b'"
proof -
  obtain x where x: "num_at prices i = Fin x"
    using num_at_finite [OF assms(1,2)] by blast
  have "i - Suc 0 < length prices"
    using assms(2) by simp
  then obtain y where y: "num_at prices (i - Suc 0) = Fin y"
    using num_at_finite [OF assms(1)] by blast
  have l: "0 < real len" "0 \<le> real len - 1"
    using assms(3) by simp_all
  then have nz: "real len \<noteq> 0"
    by simp
  show ?thesis
    using assms(4-6) l
    by (auto simp: smooth_change_def x y Let_def nz)
qed

lemma rsi_averages_nonneg:
  assumes "0 < len" and "len < length prices" and "all_finite prices"
  shows "\<exists>g l. rsi_averages prices len = (Fin g, Fin l) \<and> 0 \<le> g \<and> 0 \<le> l"
proof -
  let ?P = "\<lambda>s. \<exists>a b. s = (Fin a, Fin b) \<and> 0 \<le> a \<and> 0 \<le> b"
  have "?P (fold (accumulate_change prices) [1..<len + 1] (Fin 0, Fin 0))"
  proof (rule fold_invariant)
    show "?P (Fin 0, Fin 0)" by simp
  next
    fix i s
    assume "i \<in> set [1..<len + 1]" and "?P s"
    then show "?P (accumulate_change prices i s)"
      using accumulate_change_nonneg [OF assms(3), of i s] assms(2) by auto
  qed
  then obtain a b where ab:
    "fold (accumulate_change prices) [1..<len + 1] (Fin 0, Fin 0) = (Fin a, Fin b)"
    "0 \<le> a" "0 \<le> b"
    by blast
  have nz: "real len \<noteq> 0"
    using assms(1) by simp
  have "?P (fold (smooth_change prices len) [len + 1..<length prices]
              (Fin a / Fin (real len), Fin b / Fin (real len)))"
  proof (rule fold_invariant)
    show "?P (Fin a / Fin (real len), Fin b / Fin (real len))"
      using ab(2,3) nz by simp
  next
    fix i s
    assume "i \<in> set [len + 1..<length prices]" and "?P s"
    then show "?P (smooth_change prices len i s)"
      using smooth_change_nonneg [OF assms(3) _ assms(1), of i s] by auto
  qed
  then show ?thesis
    unfolding rsi_averages_def ab(1) Let_def prod.case .
qed

lemma calculateRSI_by_averages:
  assumes "rsi_averages prices len = (Fin g, Fin l)" and "0 \<le> g" and "0 \<le> l"
    and "\<not> length prices < len + 1"
  shows "calculateRSI prices len =
           (if l = 0 then (if g = 0 then NaN else Fin 100)
            else Fin (100 - 100 / (1 + g / l)))"
proof (cases "l = 0")
  case True
  then show ?thesis
    using assms(2) by (simp add: calculateRSI_averages [OF assms(4)] assms(1) Fin_div_zero)
next
  case False
  with assms(2,3) have "0 \<le> g / l"
    by simp
  then have "1 + g / l \<noteq> 0"
    by linarith
  with False show ?thesis
    by (simp add: calculateRSI_averages [OF assms(4)] assms(1))
qed

lemma calculateRSI_range:
  assumes "0 < len" and "all_finite prices"
  shows "calculateRSI prices len = NaN \<or>
         (Fin 0 \<le> calculateRSI prices len \<and> calculateRSI prices len \<le> Fin 100)"
proof (cases "length prices < len + 1")
  case True
  then show ?thesis
    by (simp add: calculateRSI_def)
next
  case False
  then have "len < length prices"
    by simp
  from rsi_averages_nonneg [OF assms(1) this assms(2)]
  obtain g l where gl: "rsi_averages prices len = (Fin g, Fin l)" "0 \<le> g" "0 \<le> l"
    by blast
  note r = calculateRSI_by_averages [OF gl False]
  show ?thesis
  proof (cases "l = 0")
    case True
    then show ?thesis
      by (simp add: r)
  next
    case False
    with gl(2,3) have "0 \<le> g / l"
      by simp
    then have "0 < 1 + g / l" and "1 \<le> 1 + g / l"
      by linarith+
    then have "0 \<le> 100 / (1 + g / l)" and "100 / (1 + g / l) \<le> 100"
      by (simp_all add: divide_le_eq)
    with False show ?thesis
      by (simp add: r)
  qed
qed

lemma calculateRSI_flat:
  assumes "0 < len" and "len < n"
  shows "calculateRSI (replicate n (Fin v)) len = NaN"
proof -
  let ?prices = "replicate n (Fin v)"
  have change: "\<And>i. 0 < i \<Longrightarrow> i < n \<Longrightarrow> num_at ?prices i - num_at ?prices (i - Suc 0) = Fin 0"
    by (simp add: num_at_def)
  have first: "fold (accumulate_change ?prices) [1..<len + 1] (Fin 0, Fin 0) = (Fin 0, Fin 0)"
    by (rule fold_invariant) (use assms in \<open>auto simp: accumulate_change_def change Let_def\<close>)
  have nz: "real len \<noteq> 0"
    using assms by simp
  have second: "fold (smooth_change ?prices len) [len + 1..<length ?prices] (Fin 0, Fin 0) =
                (Fin 0, Fin 0)"
    by (rule fold_invariant) (use assms nz in \<open>auto simp: smooth_change_def change Let_def\<close>)
  have avg: "Fin 0 / Fin (real len) = Fin 0"
    using nz by simp
  have "\<not> length ?prices < len + 1"
    using assms by simp
  then show ?thesis
    unfolding calculateRSI_def first Let_def prod.case avg second
    by (simp add: Fin_div_zero)
qed

text \<open>
  C5: the RSI is meant to lie in \<open>[0, 100]\<close> and to saturate to 100 when the average loss
  is zero. On a flat price sequence both averages are zero, the ratio is \<open>0 / 0\<close>, and
  the code returns NaN: for 15 equal closes with length 14, and as the \<open>rsiValue\<close> of
  trend fusion on 50 equal bars under the default settings.
\<close>

theorem rsi_flat_prices_is_nan:
  "calculateRSI (replicate 15 (Fin 100)) 14 = NaN \<and>
   rsiValue (calculateTrendFusion (replicate 50 (bar 100 100 100 0)) None) = NaN \<and>
   \<not> (Fin 0 \<le> calculateRSI (replicate 15 (Fin 100)) 14 \<and>
      calculateRSI (replicate 15 (Fin 100)) 14 \<le> Fin 100)"
proof -
  have r: "calculateRSI (replicate 15 (Fin 100)) 14 = NaN"
    "calculateRSI (replicate 50 (Fin 100)) 14 = NaN"
    by (simp_all add: calculateRSI_flat)
  have "map close (replicate 50 (bar 100 100 100 0)) = replicate 50 (Fin 100)"
    by (simp add: bar_def)
  then have "rsiValue (calculateTrendFusion (replicate 50 (bar 100 100 100 0)) None) = NaN"
    unfolding calculateTrendFusion_def Let_def split_def
    by (simp add: r or_period_def opt_field_def)
  with r show ?thesis
    by simp
qed

section \<open>Trend fusion: the RSI bias\<close>

lemma trend_periods_pos:
  "0 < trend_short settings" "0 < trend_long settings" "0 < trend_rsi_length settings"
  by (simp_all add: trend_short_def trend_long_def trend_rsi_length_def or_period_def
      split: option.splits)

lemma bias_calculateTrendFusion:
  assumes "trend_min_length settings \<le> length window"
  shows "(rsiBias (calculateTrendFusion window settings),
          rsiBiasLine (calculateTrendFusion window settings)) =
     (if 1 < length window then
        (if trend_prev_rsi window settings \<le> trend_top settings \<and>
            trend_rsi window settings > trend_top settings
         then (BULLISH, trend_bottom settings)
         else if trend_prev_rsi window settings \<ge> trend_bottom settings \<and>
                 trend_rsi window settings < trend_bottom settings
         then (BEARISH, trend_top settings)
         else (BIAS_NEUTRAL, Fin 50))
      else (BIAS_NEUTRAL, Fin 50))"
proof -
  have "\<not> length window < max (max (trend_short settings) (trend_long settings))
            (trend_rsi_length settings)"
    using assms by (auto simp: trend_min_length_def)
  then show ?thesis
    unfolding calculateTrendFusion_def trend_short_def [symmetric] trend_long_def [symmetric]
      trend_rsi_length_def [symmetric] trend_top_def [symmetric] trend_bottom_def [symmetric]
      Let_def split_def slice_butlast trend_rsi_def trend_prev_rsi_def
    by simp
qed

lemma rsiValue_calculateTrendFusion:
  assumes "trend_min_length settings \<le> length window"
  shows "rsiValue (calculateTrendFusion window settings) = trend_rsi window settings"
proof -
  have "\<not> length window < max (max (trend_short settings) (trend_long settings))
            (trend_rsi_length settings)"
    using assms by (auto simp: trend_min_length_def)
  then show ?thesis
    unfolding calculateTrendFusion_def trend_short_def [symmetric] trend_long_def [symmetric]
      trend_rsi_length_def [symmetric] Let_def split_def trend_rsi_def
    by simp
qed

lemma single_bar_rsi:
  assumes "length window \<le> 1"
  shows "trend_rsi window settings = Fin 50" "trend_prev_rsi window settings = Fin 50"
  using assms trend_periods_pos(3) [of settings]
  by (simp_all add: trend_rsi_def trend_prev_rsi_def calculateRSI_def)

text \<open>
  C8: for a window long enough for trend fusion to compute, with \<open>prev\<close> the RSI of the
  closes without the last one and \<open>cur\<close> the RSI of all closes: the bias is BULLISH, with
  reference level \<open>bottomLevel\<close>, exactly when \<open>prev \<le> topLevel < cur\<close>; BEARISH, with
  reference level \<open>topLevel\<close>, exactly when \<open>prev \<ge> bottomLevel > cur\<close>; and NEUTRAL with
  reference level 50 otherwise. (The two conditions exclude each other, so the order in
  which the code tests them does not matter; a window of a single bar has both RSI values
  at the sentinel 50 and meets neither.)
\<close>

theorem rsi_bias_crossover:
  assumes "trend_min_length settings \<le> length window"
  shows "(rsiBias (calculateTrendFusion window settings) = BULLISH \<longleftrightarrow>
            trend_prev_rsi window settings \<le> trend_top settings \<and>
            trend_rsi window settings > trend_top settings) \<and>
         (rsiBias (calculateTrendFusion window settings) = BULLISH \<longrightarrow>
            rsiBiasLine (calculateTrendFusion window settings) = trend_bottom settings) \<and>
         (rsiBias (calculateTrendFusion window settings) = BEARISH \<longleftrightarrow>
            trend_prev_rsi window settings \<ge> trend_bottom settings \<and>
            trend_rsi window settings < trend_bottom settings) \<and>
         (rsiBias (calculateTrendFusion window settings) = BEARISH \<longrightarrow>
            rsiBiasLine (calculateTrendFusion window settings) = trend_top settings) \<and>
         (rsiBias (calculateTrendFusion window settings) = BIAS_NEUTRAL \<longleftrightarrow>
            \<not> (trend_prev_rsi window settings \<le> trend_top settings \<and>
               trend_rsi window settings > trend_top settings) \<and>
            \<not> (trend_prev_rsi window settings \<ge> trend_bottom settings \<and>
               trend_rsi window settings < trend_bottom settings)) \<and>
         (rsiBias (calculateTrendFusion window settings) = BIAS_NEUTRAL \<longrightarrow>
            rsiBiasLine (calculateTrendFusion window settings) = Fin 50) \<and>
         rsiValue (calculateTrendFusion window settings) = trend_rsi window settings"
proof -
  note b = bias_calculateTrendFusion [OF assms]
  have excl: "\<not> (trend_prev_rsi window settings \<le> trend_top settings \<and>
                 trend_top settings < trend_rsi window settings \<and>
                 trend_rsi window settings < trend_bottom settings \<and>
                 trend_bottom settings \<le> trend_prev_rsi window settings)"
    by (rule js_cross_exclusive)
  show ?thesis
  proof (cases "1 < length window")
    case True
    from b True excl show ?thesis
      by (auto simp: rsiValue_calculateTrendFusion [OF assms] split: if_splits)
  next
    case False
    then have s: "trend_rsi window settings = Fin 50" "trend_prev_rsi window settings = Fin 50"
      by (simp_all add: single_bar_rsi)
    have "\<not> (Fin 50 \<le> trend_top settings \<and> trend_top settings < Fin 50)"
      "\<not> (trend_bottom settings \<le> Fin 50 \<and> Fin 50 < trend_bottom settings)"
      using js_le_not_gt by blast+
    with b False show ?thesis
      by (auto simp: rsiValue_calculateTrendFusion [OF assms] s)
  qed
qed


lemma trend_example_cfg:
  "trend_short (Some \<lparr>shortEMAPeriod = Some 2, longEMAPeriod = Some 3, rsiPeriod = Some 2,
     topLevel = None, bottomLevel = None\<rparr>) = 2"
  "trend_long (Some \<lparr>shortEMAPeriod = Some 2, longEMAPeriod = Some 3, rsiPeriod = Some 2,
     topLevel = None, bottomLevel = None\<rparr>) = 3"
  "trend_rsi_length (Some \<lparr>shortEMAPeriod = Some 2, longEMAPeriod = Some 3, rsiPeriod = Some 2,
     topLevel = None, bottomLevel = None\<rparr>) = 2"
  "trend_top (Some \<lparr>shortEMAPeriod = Some 2, longEMAPeriod = Some 3, rsiPeriod = Some 2,
     topLevel = None, bottomLevel = None\<rparr>) = Fin 60"
  "trend_bottom (Some \<lparr>shortEMAPeriod = Some 2, longEMAPeriod = Some 3, rsiPeriod = Some 2,
     topLevel = None, bottomLevel = None\<rparr>) = Fin 40"
  "trend_min_length (Some \<lparr>shortEMAPeriod = Some 2, longEMAPeriod = Some 3, rsiPeriod = Some 2,
     topLevel = None, bottomLevel = None\<rparr>) = 3"
  by (simp_all add: trend_short_def trend_long_def trend_rsi_length_def trend_top_def
      trend_bottom_def trend_min_length_def or_period_def or_level_def opt_field_def)

lemma rsi_two_rises: "calculateRSI [Fin 1, Fin 2, Fin 3] 2 = Fin 100"
proof -
  have "[1..<2 + 1] = [1, 2 :: nat]" "[2 + 1..<length [Fin 1, Fin 2, Fin 3 :: jsnum]] = []"
    by (simp_all add: upt_rec)
  then show ?thesis
    unfolding calculateRSI_def
    by (simp add: accumulate_change_def Let_def num_at_def Fin_div_zero)
qed

lemma rsi_two_falls: "calculateRSI [Fin 3, Fin 2, Fin 1] 2 = Fin 0"
proof -
  have "[1..<2 + 1] = [1, 2 :: nat]" "[2 + 1..<length [Fin 3, Fin 2, Fin 1 :: jsnum]] = []"
    by (simp_all add: upt_rec)
  then show ?thesis
    unfolding calculateRSI_def
    by (simp add: accumulate_change_def Let_def num_at_def)
qed

lemma rsi_rise_and_fall: "calculateRSI [Fin 1, Fin 2, Fin 1] 2 = Fin 50"
proof -
  have "[1..<2 + 1] = [1, 2 :: nat]" "[2 + 1..<length [Fin 1, Fin 2, Fin 1 :: jsnum]] = []"
    by (simp_all add: upt_rec)
  then show ?thesis
    unfolding calculateRSI_def
    by (simp add: accumulate_change_def Let_def num_at_def)
qed

theorem rsi_bias_crossover_witness:
  "trend_min_length (Some \<lparr>shortEMAPeriod = Some 2, longEMAPeriod = Some 3, rsiPeriod = Some 2,
     topLevel = None, bottomLevel = None\<rparr>) \<le> length [bar 1 1 1 0, bar 2 2 2 1, bar 3 3 3 2] \<and>
   trend_prev_rsi [bar 1 1 1 0, bar 2 2 2 1, bar 3 3 3 2] (Some \<lparr>shortEMAPeriod = Some 2, longEMAPeriod = Some 3, rsiPeriod = Some 2,
     topLevel = None, bottomLevel = None\<rparr>) = Fin 50 \<and>
   trend_rsi [bar 1 1 1 0, bar 2 2 2 1, bar 3 3 3 2] (Some \<lparr>shortEMAPeriod = Some 2, longEMAPeriod = Some 3, rsiPeriod = Some 2,
     topLevel = None, bottomLevel = None\<rparr>) = Fin 100 \<and>
   rsiBias (calculateTrendFusion [bar 1 1 1 0, bar 2 2 2 1, bar 3 3 3 2] (Some \<lparr>shortEMAPeriod = Some 2, longEMAPeriod = Some 3, rsiPeriod = Some 2,
     topLevel = None, bottomLevel = None\<rparr>)) = BULLISH \<and>
   rsiBiasLine (calculateTrendFusion [bar 1 1 1 0, bar 2 2 2 1, bar 3 3 3 2] (Some \<lparr>shortEMAPeriod = Some 2, longEMAPeriod = Some 3, rsiPeriod = Some 2,
     topLevel = None, bottomLevel = None\<rparr>)) = Fin 40 \<and>
   trend_min_length (Some \<lparr>shortEMAPeriod = Some 2, longEMAPeriod = Some 3, rsiPeriod = Some 2,
     topLevel = None, bottomLevel = None\<rparr>) \<le> length [bar 3 3 3 0, bar 2 2 2 1, bar 1 1 1 2] \<and>
   trend_prev_rsi [bar 3 3 3 0, bar 2 2 2 1, bar 1 1 1 2] (Some \<lparr>shortEMAPeriod = Some 2, longEMAPeriod = Some 3, rsiPeriod = Some 2,
     topLevel = None, bottomLevel = None\<rparr>) = Fin 50 \<and>
   trend_rsi [bar 3 3 3 0, bar 2 2 2 1, bar 1 1 1 2] (Some \<lparr>shortEMAPeriod = Some 2, longEMAPeriod = Some 3, rsiPeriod = Some 2,
     topLevel = None, bottomLevel = None\<rparr>) = Fin 0 \<and>
   rsiBias (calculateTrendFusion [bar 3 3 3 0, bar 2 2 2 1, bar 1 1 1 2] (Some \<lparr>shortEMAPeriod = Some 2, longEMAPeriod = Some 3, rsiPeriod = Some 2,
     topLevel = None, bottomLevel = None\<rparr>)) = BEARISH \<and>
   rsiBiasLine (calculateTrendFusion [bar 3 3 3 0, bar 2 2 2 1, bar 1 1 1 2] (Some \<lparr>shortEMAPeriod = Some 2, longEMAPeriod = Some 3, rsiPeriod = Some 2,
     topLevel = None, bottomLevel = None\<rparr>)) = Fin 60 \<and>
   trend_min_length (Some \<lparr>shortEMAPeriod = Some 2, longEMAPeriod = Some 3, rsiPeriod = Some 2,
     topLevel = None, bottomLevel = None\<rparr>) \<le> length [bar 1 1 1 0, bar 2 2 2 1, bar 1 1 1 2] \<and>
   trend_prev_rsi [bar 1 1 1 0, bar 2 2 2 1, bar 1 1 1 2] (Some \<lparr>shortEMAPeriod = Some 2, longEMAPeriod = Some 3, rsiPeriod = Some 2,
     topLevel = None, bottomLevel = None\<rparr>) = Fin 50 \<and>
   trend_rsi [bar 1 1 1 0, bar 2 2 2 1, bar 1 1 1 2] (Some \<lparr>shortEMAPeriod = Some 2, longEMAPeriod = Some 3, rsiPeriod = Some 2,
     topLevel = None, bottomLevel = None\<rparr>) = Fin 50 \<and>
   rsiBias (calculateTrendFusion [bar 1 1 1 0, bar 2 2 2 1, bar 1 1 1 2] (Some \<lparr>shortEMAPeriod = Some 2, longEMAPeriod = Some 3, rsiPeriod = Some 2,
     topLevel = None, bottomLevel = None\<rparr>)) = BIAS_NEUTRAL \<and>
   rsiBiasLine (calculateTrendFusion [bar 1 1 1 0, bar 2 2 2 1, bar 1 1 1 2] (Some \<lparr>shortEMAPeriod = Some 2, longEMAPeriod = Some 3, rsiPeriod = Some 2,
     topLevel = None, bottomLevel = None\<rparr>)) = Fin 50"
proof -
  have h: "trend_min_length (Some \<lparr>shortEMAPeriod = Some 2, longEMAPeriod = Some 3, rsiPeriod = Some 2,
     topLevel = None, bottomLevel = None\<rparr>) \<le> length [bar 1 1 1 0, bar 2 2 2 1, bar 3 3 3 2]"
    "trend_min_length (Some \<lparr>shortEMAPeriod = Some 2, longEMAPeriod = Some 3, rsiPeriod = Some 2,
     topLevel = None, bottomLevel = None\<rparr>) \<le> length [bar 3 3 3 0, bar 2 2 2 1, bar 1 1 1 2]"
    "trend_min_length (Some \<lparr>shortEMAPeriod = Some 2, longEMAPeriod = Some 3, rsiPeriod = Some 2,
     topLevel = None, bottomLevel = None\<rparr>) \<le> length [bar 1 1 1 0, bar 2 2 2 1, bar 1 1 1 2]"
    by (simp_all add: trend_example_cfg)
  have p: "trend_prev_rsi [bar 1 1 1 0, bar 2 2 2 1, bar 3 3 3 2] (Some \<lparr>shortEMAPeriod = Some 2, longEMAPeriod = Some 3, rsiPeriod = Some 2,
     topLevel = None, bottomLevel = None\<rparr>) = Fin 50"
    "trend_prev_rsi [bar 3 3 3 0, bar 2 2 2 1, bar 1 1 1 2] (Some \<lparr>shortEMAPeriod = Some 2, longEMAPeriod = Some 3, rsiPeriod = Some 2,
     topLevel = None, bottomLevel = None\<rparr>) = Fin 50"
    "trend_prev_rsi [bar 1 1 1 0, bar 2 2 2 1, bar 1 1 1 2] (Some \<lparr>shortEMAPeriod = Some 2, longEMAPeriod = Some 3, rsiPeriod = Some 2,
     topLevel = None, bottomLevel = None\<rparr>) = Fin 50"
    by (simp_all add: trend_prev_rsi_def trend_example_cfg calculateRSI_def bar_def)
  have c: "trend_rsi [bar 1 1 1 0, bar 2 2 2 1, bar 3 3 3 2] (Some \<lparr>shortEMAPeriod = Some 2, longEMAPeriod = Some 3, rsiPeriod = Some 2,
     topLevel = None, bottomLevel = None\<rparr>) = Fin 100"
    "trend_rsi [bar 3 3 3 0, bar 2 2 2 1, bar 1 1 1 2] (Some \<lparr>shortEMAPeriod = Some 2, longEMAPeriod = Some 3, rsiPeriod = Some 2,
     topLevel = None, bottomLevel = None\<rparr>) = Fin 0"
    "trend_rsi [bar 1 1 1 0, bar 2 2 2 1, bar 1 1 1 2] (Some \<lparr>shortEMAPeriod = Some 2, longEMAPeriod = Some 3, rsiPeriod = Some 2,
     topLevel = None, bottomLevel = None\<rparr>) = Fin 50"
    by (simp_all add: trend_rsi_def trend_example_cfg bar_def rsi_two_rises rsi_two_falls
        rsi_rise_and_fall)
  have r1: "rsiBias (calculateTrendFusion [bar 1 1 1 0, bar 2 2 2 1, bar 3 3 3 2] (Some \<lparr>shortEMAPeriod = Some 2, longEMAPeriod = Some 3, rsiPeriod = Some 2,
     topLevel = None, bottomLevel = None\<rparr>)) = BULLISH \<and>
     rsiBiasLine (calculateTrendFusion [bar 1 1 1 0, bar 2 2 2 1, bar 3 3 3 2] (Some \<lparr>shortEMAPeriod = Some 2, longEMAPeriod = Some 3, rsiPeriod = Some 2,
     topLevel = None, bottomLevel = None\<rparr>)) = Fin 40"
    using rsi_bias_crossover [OF h(1)] by (simp add: p c trend_example_cfg)
  have r2: "rsiBias (calculateTrendFusion [bar 3 3 3 0, bar 2 2 2 1, bar 1 1 1 2] (Some \<lparr>shortEMAPeriod = Some 2, longEMAPeriod = Some 3, rsiPeriod = Some 2,
     topLevel = None, bottomLevel = None\<rparr>)) = BEARISH \<and>
     rsiBiasLine (calculateTrendFusion [bar 3 3 3 0, bar 2 2 2 1, bar 1 1 1 2] (Some \<lparr>shortEMAPeriod = Some 2, longEMAPeriod = Some 3, rsiPeriod = Some 2,
     topLevel = None, bottomLevel = None\<rparr>)) = Fin 60"
    using rsi_bias_crossover [OF h(2)] by (simp add: p c trend_example_cfg)
  have r3: "rsiBias (calculateTrendFusion [bar 1 1 1 0, bar 2 2 2 1, bar 1 1 1 2] (Some \<lparr>shortEMAPeriod = Some 2, longEMAPeriod = Some 3, rsiPeriod = Some 2,
     topLevel = None, bottomLevel = None\<rparr>))
              = BIAS_NEUTRAL \<and>
     rsiBiasLine (calculateTrendFusion [bar 1 1 1 0, bar 2 2 2 1, bar 1 1 1 2] (Some \<lparr>shortEMAPeriod = Some 2, longEMAPeriod = Some 3, rsiPeriod = Some 2,
     topLevel = None, bottomLevel = None\<rparr>)) = Fin 50"
    using rsi_bias_crossover [OF h(3)] by (simp add: p c trend_example_cfg)
  from h p c r1 r2 r3 show ?thesis
    by blast
qed

section \<open>Zero-valued options\<close>

lemma calculateSSLChannel_settings_cong:
  assumes "ssl_period s = ssl_period s'" and "ssl_kind s = ssl_kind s'"
  shows "calculateSSLChannel window wicks s = calculateSSLChannel window wicks s'"
proof (induction "length window" arbitrary: window rule: less_induct)
  case less
  show ?case
  proof (cases "ssl_period s \<le> length window")
    case False
    then show ?thesis
      using assms(1) by (simp add: calculateSSLChannel_short)
  next
    case True
    then have long: "ssl_period s' \<le> length window"
      using assms(1) by simp
    have ma: "ssl_ma1 window s = ssl_ma1 window s'" "ssl_ma2 window s = ssl_ma2 window s'"
      by (simp_all add: ssl_ma1_def ssl_ma2_def assms)
    have st: "ssl_state window wicks s = ssl_state window wicks s'"
      unfolding ssl_state_def ma assms(1) ..
    have "window \<noteq> []"
      using True ssl_period_pos [of s] by auto
    then have "length (drop (length window - Suc (ssl_period s')) (butlast window))
                 < length window"
      by simp
    then have prev: "calculateSSLChannel
             (drop (length window - Suc (ssl_period s')) (butlast window)) wicks s =
           calculateSSLChannel
             (drop (length window - Suc (ssl_period s')) (butlast window)) wicks s'"
      by (rule less)
    show ?thesis
      unfolding calculateSSLChannel_long [OF True] calculateSSLChannel_long [OF long]
        st ma assms(1) prev ..
  qed
qed

lemma calculateTrendFusion_settings_cong:
  assumes "trend_short s = trend_short s'" and "trend_long s = trend_long s'"
    and "trend_rsi_length s = trend_rsi_length s'"
    and "trend_top s = trend_top s'" and "trend_bottom s = trend_bottom s'"
  shows "calculateTrendFusion window s = calculateTrendFusion window s'"
  using assms
  unfolding calculateTrendFusion_def trend_short_def trend_long_def trend_rsi_length_def
    trend_top_def trend_bottom_def
  by simp

text \<open>
  C10: an option explicitly set to 0 gives the same result as the option left out, which
  is the result at the default: \<open>maPeriod\<close> 0 acts as 200 for the SSL channel, and for
  trend fusion \<open>shortEMAPeriod\<close>, \<open>longEMAPeriod\<close>, \<open>rsiPeriod\<close>, \<open>topLevel\<close> and
  \<open>bottomLevel\<close> 0 act as 14, 50, 14, 60 and 40, whatever the other options are.
\<close>

theorem zero_options_are_defaults:
  "calculateSSLChannel window wicks (Some (c\<lparr>maPeriod := Some 0\<rparr>)) =
     calculateSSLChannel window wicks (Some (c\<lparr>maPeriod := None\<rparr>)) \<and>
   calculateSSLChannel window wicks (Some (c\<lparr>maPeriod := Some 0\<rparr>)) =
     calculateSSLChannel window wicks (Some (c\<lparr>maPeriod := Some 200\<rparr>)) \<and>
   calculateTrendFusion window (Some (t\<lparr>shortEMAPeriod := Some 0\<rparr>)) =
     calculateTrendFusion window (Some (t\<lparr>shortEMAPeriod := None\<rparr>)) \<and>
   calculateTrendFusion window (Some (t\<lparr>shortEMAPeriod := Some 0\<rparr>)) =
     calculateTrendFusion window (Some (t\<lparr>shortEMAPeriod := Some 14\<rparr>)) \<and>
   calculateTrendFusion window (Some (t\<lparr>longEMAPeriod := Some 0\<rparr>)) =
     calculateTrendFusion window (Some (t\<lparr>longEMAPeriod := None\<rparr>)) \<and>
   calculateTrendFusion window (Some (t\<lparr>longEMAPeriod := Some 0\<rparr>)) =
     calculateTrendFusion window (Some (t\<lparr>longEMAPeriod := Some 50\<rparr>)) \<and>
   calculateTrendFusion window (Some (t\<lparr>rsiPeriod := Some 0\<rparr>)) =
     calculateTrendFusion window (Some (t\<lparr>rsiPeriod := None\<rparr>)) \<and>
   calculateTrendFusion window (Some (t\<lparr>rsiPeriod := Some 0\<rparr>)) =
     calculateTrendFusion window (Some (t\<lparr>rsiPeriod := Some 14\<rparr>)) \<and>
   calculateTrendFusion window (Some (t\<lparr>topLevel := Some (Fin 0)\<rparr>)) =
     calculateTrendFusion window (Some (t\<lparr>topLevel := None\<rparr>)) \<and>
   calculateTrendFusion window (Some (t\<lparr>topLevel := Some (Fin 0)\<rparr>)) =
     calculateTrendFusion window (Some (t\<lparr>topLevel := Some (Fin 60)\<rparr>)) \<and>
   calculateTrendFusion window (Some (t\<lparr>bottomLevel := Some (Fin 0)\<rparr>)) =
     calculateTrendFusion window (Some (t\<lparr>bottomLevel := None\<rparr>)) \<and>
   calculateTrendFusion window (Some (t\<lparr>bottomLevel := Some (Fin 0)\<rparr>)) =
     calculateTrendFusion window (Some (t\<lparr>bottomLevel := Some (Fin 40)\<rparr>))"
proof -
  have ssl: "\<And>a b. ssl_period (Some (c\<lparr>maPeriod := a\<rparr>)) = ssl_period (Some (c\<lparr>maPeriod := b\<rparr>))
      \<Longrightarrow> calculateSSLChannel window wicks (Some (c\<lparr>maPeriod := a\<rparr>)) =
          calculateSSLChannel window wicks (Some (c\<lparr>maPeriod := b\<rparr>))"
    by (rule calculateSSLChannel_settings_cong) (simp_all add: ssl_kind_def opt_field_def)
  show ?thesis
    by (intro conjI ssl calculateTrendFusion_settings_cong)
      (simp_all add: ssl_period_def trend_short_def trend_long_def trend_rsi_length_def
        trend_top_def trend_bottom_def or_period_def or_level_def opt_field_def)
qed

section \<open>Time-range selection: the lower-bound search\<close>

lemma sorted_timestamps:
  "sorted (map timestamp data) \<Longrightarrow> i \<le> j \<Longrightarrow> j < length data \<Longrightarrow>
   timestamp (data ! i) \<le> timestamp (data ! j)"
  using sorted_nth_mono [of "map timestamp data" i j] by simp

lemma filter_eq_drop:
  assumes "k \<le> length xs" and "\<forall>i<k. \<not> P (xs ! i)"
    and "\<forall>i. k \<le> i \<and> i < length xs \<longrightarrow> P (xs ! i)"
  shows "filter P xs = drop k xs"
proof -
  have "filter P (take k xs) = []"
    using assms(1,2) by (auto simp: filter_empty_conv in_set_conv_nth)
  moreover have "filter P (drop k xs) = drop k xs"
    using assms(3) by (auto simp: filter_id_conv in_set_conv_nth)
  ultimately show ?thesis
    by (metis append_take_drop_id filter_append self_append_conv2)
qed

lemma findStartIndex_loop_lower_bound:
  "sorted (map timestamp data) \<Longrightarrow> 0 \<le> left \<Longrightarrow> right < int (length data) \<Longrightarrow>
   left \<le> right + 1 \<Longrightarrow>
   (\<forall>i. i < nat left \<longrightarrow> timestamp (data ! i) < target) \<Longrightarrow>
   (\<forall>i. nat (right + 1) \<le> i \<and> i < length data \<longrightarrow> target \<le> timestamp (data ! i)) \<Longrightarrow>
   \<exists>k. findStartIndex_loop data target left right = Inr (int k) \<and> lower_bound data target k"
proof (induction data target left right rule: findStartIndex_loop.induct)
  case (1 data target left right)
  show ?case
  proof (cases "left \<le> right")
    case False
    with "1.prems" have eq: "left = right + 1"
      by simp
    have "findStartIndex_loop data target left right = Inr left"
      by (subst findStartIndex_loop.simps) (simp add: False)
    moreover have "lower_bound data target (nat left)"
      using "1.prems" eq by (auto simp: lower_bound_def)
    ultimately show ?thesis
      using "1.prems"(2) by (intro exI [of _ "nat left"]) simp
  next
    case True
    define mid where "mid = (left + right) div 2"
    have mid: "left \<le> mid" "mid \<le> right"
      using True by (simp_all add: mid_def)
    then have inrange: "\<not> (mid < 0 \<or> int (length data) \<le> mid)"
      using "1.prems"(2,3) by simp
    then have m: "nat mid < length data"
      by linarith
    show ?thesis
    proof (cases "target \<le> timestamp (data ! nat mid)")
      case ge: True
      have step: "findStartIndex_loop data target left right =
                  findStartIndex_loop data target left (mid - 1)"
        using True inrange ge
        by (subst findStartIndex_loop.simps) (simp add: mid_def [symmetric] Let_def)
      have above: "\<forall>i. nat (mid - 1 + 1) \<le> i \<and> i < length data \<longrightarrow>
                     target \<le> timestamp (data ! i)"
      proof (intro allI impI)
        fix i
        assume i: "nat (mid - 1 + 1) \<le> i \<and> i < length data"
        then have "timestamp (data ! nat mid) \<le> timestamp (data ! i)"
          using "1.prems"(1) by (intro sorted_timestamps) simp_all
        with ge show "target \<le> timestamp (data ! i)"
          by simp
      qed
      have "\<exists>k. findStartIndex_loop data target left (mid - 1) = Inr (int k) \<and>
                lower_bound data target k"
        using True inrange ge mid "1.prems" above
        by (intro "1.IH"(1) [OF True mid_def inrange refl ge]) simp_all
      then show ?thesis
        by (simp add: step)
    next
      case lt: False
      have step: "findStartIndex_loop data target left right =
                  findStartIndex_loop data target (mid + 1) right"
        using True inrange lt
        by (subst findStartIndex_loop.simps) (simp add: mid_def [symmetric] Let_def)
      have below: "\<forall>i. i < nat (mid + 1) \<longrightarrow> timestamp (data ! i) < target"
      proof (intro allI impI)
        fix i
        assume i: "i < nat (mid + 1)"
        then have "timestamp (data ! i) \<le> timestamp (data ! nat mid)"
          using "1.prems"(1) m by (intro sorted_timestamps) simp_all
        with lt show "timestamp (data ! i) < target"
          by simp
      qed
      have "\<exists>k. findStartIndex_loop data target (mid + 1) right = Inr (int k) \<and>
                lower_bound data target k"
        using True inrange lt mid "1.prems" below
        by (intro "1.IH"(2) [OF True mid_def inrange refl lt]) simp_all
      then show ?thesis
        by (simp add: step)
    qed
  qed
qed

lemma lower_bound_unique:
  assumes "lower_bound data target k"
  shows "k = length (filter (\<lambda>b. timestamp b < target) data)"
    and "drop k data = filter (\<lambda>b. target \<le> timestamp b) data"
proof -
  have d: "filter (\<lambda>b. target \<le> timestamp b) data = drop k data"
    using assms by (intro filter_eq_drop) (auto simp: lower_bound_def)
  then show "drop k data = filter (\<lambda>b. target \<le> timestamp b) data"
    by simp
  have lo: "filter (\<lambda>b. timestamp b < target) (take k data) = take k data"
    using assms by (auto simp: filter_id_conv in_set_conv_nth lower_bound_def)
  have "\<forall>b \<in> set (drop k data). \<not> timestamp b < target"
  proof
    fix b
    assume "b \<in> set (drop k data)"
    then have "b \<in> set (filter (\<lambda>b. target \<le> timestamp b) data)"
      by (simp only: d)
    then show "\<not> timestamp b < target"
      by simp
  qed
  then have hi: "filter (\<lambda>b. timestamp b < target) (drop k data) = []"
    by (simp only: filter_empty_conv)
  have "filter (\<lambda>b. timestamp b < target) data =
        filter (\<lambda>b. timestamp b < target) (take k data @ drop k data)"
    by simp
  also have "\<dots> = take k data"
    by (simp only: filter_append lo hi append_Nil2)
  finally show "k = length (filter (\<lambda>b. timestamp b < target) data)"
    using assms by (simp add: lower_bound_def)
qed

lemma findStartIndex_lower_bound:
  assumes "sorted (map timestamp data)"
  shows "\<exists>k. findStartIndex data target = Inr (int k) \<and> lower_bound data target k"
  unfolding findStartIndex_def
  using assms by (intro findStartIndex_loop_lower_bound) simp_all

lemma from_cutoff_filter:
  assumes "sorted (map timestamp data)"
  shows "from_cutoff data cutoff = Inr (filter (\<lambda>b. cutoff \<le> timestamp b) data)"
proof -
  obtain k where k: "findStartIndex data cutoff = Inr (int k)" "lower_bound data cutoff k"
    using findStartIndex_lower_bound [OF assms] by blast
  then show ?thesis
    by (simp add: from_cutoff_def slice_from lower_bound_unique(2))
qed


text \<open>
  Both selectors return the bars at or after the cutoff of the token, and the whole series
  for \<^verbatim>\<open>'All'\<close>; the selector of the worker does so for every token it names.
\<close>

lemma loadTimeRangeData_switch_filter:
  assumes "sorted (map timestamp data)"
  shows "loadTimeRangeData_switch startOfYearUTC data timeRange =
     Inr (if timeRange = ''All'' then data
          else filter (\<lambda>b. range_cutoff startOfYearUTC (timestamp (last data)) timeRange
                              \<le> timestamp b) data)"
proof (cases "data = []")
  case True
  then show ?thesis
    by (simp add: loadTimeRangeData_switch_def)
next
  case False
  then have e: "timestamp (data ! (length data - 1)) = timestamp (last data)"
    by (simp add: last_conv_nth)
  from False have n: "length data \<noteq> 0"
    by simp
  show ?thesis
    unfolding loadTimeRangeData_switch_def Let_def e from_cutoff_filter [OF assms]
    using n by (simp add: range_cutoff_def range_duration_def)
qed

lemma processTimeRangeData_filter:
  assumes "sorted (map timestamp data)"
  shows "processTimeRangeData startOfYearUTC data timeRange =
     Inr (if timeRange = ''All'' then data
          else if timeRange = ''10Y'' then
            filter (\<lambda>b. timestamp (last data) - 86400000 \<le> timestamp b) data
          else filter (\<lambda>b. range_cutoff startOfYearUTC (timestamp (last data)) timeRange
                              \<le> timestamp b) data)"
proof (cases "data = []")
  case True
  then show ?thesis
    by (simp add: processTimeRangeData_def)
next
  case False
  then have e: "timestamp (data ! (length data - 1)) = timestamp (last data)"
    by (simp add: last_conv_nth)
  from False have n: "length data \<noteq> 0"
    by simp
  show ?thesis
    unfolding processTimeRangeData_def Let_def e from_cutoff_filter [OF assms]
    using n by (simp add: range_cutoff_def range_duration_def)
qed

text \<open>
  On a series with non-decreasing timestamps the search returns (it never reads out of
  range) the lower bound of the cutoff, and slicing there gives exactly the bars at or
  after the cutoff.
\<close>

lemma findStartIndex_slice:
  assumes "sorted (map timestamp data)"
  shows "\<exists>k. findStartIndex data cutoff = Inr (int k) \<and> lower_bound data cutoff k \<and>
             k = length (filter (\<lambda>b. timestamp b < cutoff) data) \<and>
             slice data (int k) None = filter (\<lambda>b. cutoff \<le> timestamp b) data"
proof -
  obtain k where k: "findStartIndex data cutoff = Inr (int k)" "lower_bound data cutoff k"
    using findStartIndex_lower_bound [OF assms] by blast
  note u = lower_bound_unique [OF k(2)]
  have "slice data (int k) None = filter (\<lambda>b. cutoff \<le> timestamp b) data"
    by (simp add: slice_from u(2))
  with k u(1) show ?thesis
    by blast
qed

lemma selected_range_is_suffix:
  assumes "sorted (map timestamp data)"
  shows "\<exists>k. processTimeRangeData startOfYearUTC data timeRange = Inr (drop k data)"
    and "\<exists>k. loadTimeRangeData_switch startOfYearUTC data timeRange = Inr (drop k data)"
proof -
  have suffix: "\<exists>k. filter (\<lambda>b. c \<le> timestamp b) data = drop k data" for c
    using findStartIndex_lower_bound [OF assms, of c] lower_bound_unique(2) by metis
  have "data = drop 0 data"
    by simp
  then have whole: "\<exists>k. data = drop k data"
    by (rule exI)
  show "\<exists>k. processTimeRangeData startOfYearUTC data timeRange = Inr (drop k data)"
    unfolding processTimeRangeData_filter [OF assms]
    using suffix whole by auto
  show "\<exists>k. loadTimeRangeData_switch startOfYearUTC data timeRange = Inr (drop k data)"
    unfolding loadTimeRangeData_switch_filter [OF assms]
    using suffix whole by auto
qed

lemma two_days_sorted: "sorted (map timestamp two_days)"
  by (simp add: two_days_def bar_def)

text \<open>
  C9: for a named range token the selector is to return the bars from the latest timestamp
  minus the token's duration on. The selector of the worker has no case for the ten-year
  token, which the selector of \<^verbatim>\<open>src/App.tsx\<close> has: on two bars two days apart the
  ten-year range is both bars, \<^verbatim>\<open>loadTimeRangeData\<close> returns both, and
  \<^verbatim>\<open>processTimeRangeData\<close> returns only the last one, through its one-day default.
\<close>

theorem worker_selector_ten_year_token:
  "sorted (map timestamp two_days) \<and>
   range_cutoff (\<lambda>t. 0) (timestamp (last two_days)) ''10Y'' = 172800000 - 315360000000 \<and>
   filter (\<lambda>b. range_cutoff (\<lambda>t. 0) (timestamp (last two_days)) ''10Y'' \<le> timestamp b)
     two_days = two_days \<and>
   processTimeRangeData (\<lambda>t. 0) two_days ''10Y'' = Inr [bar 1 1 1 172800000] \<and>
   loadTimeRangeData_switch (\<lambda>t. 0) two_days ''10Y'' = Inr two_days"
proof -
  have c: "range_cutoff (\<lambda>t. 0) (timestamp (last two_days)) ''10Y'' =
           172800000 - 315360000000"
    by (simp add: range_cutoff_def range_duration_def two_days_def bar_def)
  have f: "filter (\<lambda>b. range_cutoff (\<lambda>t. 0) (timestamp (last two_days)) ''10Y''
                          \<le> timestamp b) two_days = two_days"
    unfolding c by (simp add: two_days_def bar_def)
  have w: "processTimeRangeData (\<lambda>t. 0) two_days ''10Y'' = Inr [bar 1 1 1 172800000]"
    unfolding processTimeRangeData_filter [OF two_days_sorted]
    by (simp add: two_days_def bar_def)
  have a: "loadTimeRangeData_switch (\<lambda>t. 0) two_days ''10Y'' = Inr two_days"
    unfolding loadTimeRangeData_switch_filter [OF two_days_sorted] f by simp
  from two_days_sorted c f w a show ?thesis
    by (intro conjI)
qed

end
